theory Spec2Isabelle
  imports Complex_Main "HOL-Library.Multiset"
begin

section \<open>Data model of the game server (server/storage.ts, shared schema)\<close>

text \<open>
  JavaScript numbers are modelled by \<^typ>\<open>real\<close>: every finite binary64 value is a real,
  comparison and \<open>===\<close> on finite numbers are the comparison and equality of the reals.
  \<open>NaN\<close> and the infinities are outside the model. The sums, products and quotients that
  the game operations compute are rounded to binary64 (\<open>numberValue\<close> below), and so are
  the decimal literals of the prize table. Identifiers (serial columns) are natural numbers,
  counters are integers, whose increments are exact.
  A reading of the clock (\<open>new Date()\<close>, \<open>defaultNow()\<close>) is a parameter \<open>now\<close> of the
  operation that reads it, an ISO 8601 text. A value of \<open>Math.random()\<close> is a parameter of
  the operation that draws it.
\<close>

type_synonym timestamp = string

subsection \<open>Binary64 arithmetic\<close>

text \<open>The number of binary digits of a natural number.\<close>

fun bitLength :: "nat \<Rightarrow> nat" where
  "bitLength n = (if n = 0 then 0 else Suc (bitLength (n div 2)))"

declare bitLength.simps [simp del]

text \<open>
  For a positive \<open>x\<close>, the exponent \<open>e\<close> with \<open>2^e \<le> x < 2^(e+1)\<close>: read off the integer
  part of \<open>x\<close> from 1 up, and off the integer part of \<open>1 / x\<close> below 1.
\<close>

definition binade :: "real \<Rightarrow> int" where
  "binade x = (if 1 \<le> x then int (bitLength (nat \<lfloor>x\<rfloor>)) - 1
               else - int (bitLength (nat (\<lceil>1 / x\<rceil> - 1))))"

definition pow2 :: "int \<Rightarrow> real" where
  "pow2 k = (if 0 \<le> k then 2 ^ nat k else 1 / 2 ^ nat (- k))"

text \<open>The nearest integer, the even one of two equally near.\<close>

definition roundHalfEven :: "real \<Rightarrow> int" where
  "roundHalfEven q =
     (let f = \<lfloor>q\<rfloor>; d = q - of_int f
      in if d < 1 / 2 then f else if 1 / 2 < d then f + 1 else if even f then f else f + 1)"

text \<open>
  "The Number value for \<open>x\<close>" of the language specification, for a magnitude below
  \<open>2^1024\<close>: the nearest multiple of the unit in the last place, which is \<open>2^(e-52)\<close> for
  \<open>x\<close> of exponent \<open>e\<close> and \<open>2^(-1074)\<close> in the subnormal range, ties going to the even
  multiple. Every arithmetic operator on numbers returns the Number value for the exact
  result.
\<close>

definition numberValue :: "real \<Rightarrow> real" where
  "numberValue x =
     (if x = 0 then 0
      else let u = pow2 (max (binade \<bar>x\<bar> - 52) (- 1074))
           in sgn x * (of_int (roundHalfEven (\<bar>x\<bar> / u)) * u))"

definition js_add :: "real \<Rightarrow> real \<Rightarrow> real" where
  "js_add x y = numberValue (x + y)"

definition js_mul :: "real \<Rightarrow> real \<Rightarrow> real" where
  "js_mul x y = numberValue (x * y)"

definition js_div :: "real \<Rightarrow> real \<Rightarrow> real" where
  "js_div x y = numberValue (x / y)"

subsection \<open>Rows and session objects\<close>

text \<open>The columns of the \<open>users\<close> table that the game operations read or write.\<close>

record user =
  u_id :: nat
  username :: string
  gamesPlayed :: int
  updatedAt :: timestamp

record game =
  g_id :: nat
  g_type :: string
  g_name :: string
  g_createdAt :: timestamp

record score =
  userId :: nat
  gameId :: nat
  s_value :: real
  createdAt :: timestamp

text \<open>The object \<open>gameState\<close> built by \<open>startGuessingGame\<close>.\<close>

record guessing_state =
  targetNumber :: real
  attempts :: int
  maxAttempts :: int
  previousGuesses :: "real list"
  gameOver :: bool
  gs_userId :: nat

text \<open>The object returned by a \<open>makeGuess\<close> that got past its three guards.\<close>

record guess_result =
  message :: string
  isCorrect :: bool
  attemptsLeft :: int
  gr_previousGuesses :: "real list"
  correctNumber :: "real option"

text \<open>
  \<open>makeGuess\<close> answers \<open>{ error: ... }\<close> (a value, not an exception) or the result object:
  \<open>Inl\<close> carries the error text.
\<close>

type_synonym guess_response = "string + guess_result"

text \<open>
  A JavaScript \<open>Map\<close> whose iteration order matters is an association list in insertion
  order. \<open>Map.set\<close> overwrites the value of a key in place and appends a new key.
\<close>

fun map_set :: "'k \<Rightarrow> 'v \<Rightarrow> ('k \<times> 'v) list \<Rightarrow> ('k \<times> 'v) list" where
  "map_set k v [] = [(k, v)]"
| "map_set k v ((k', v') # kvs) =
     (if k' = k then (k, v) # kvs else (k', v') # map_set k v kvs)"

section \<open>MemStorage\<close>

text \<open>
  \<open>userGames\<close> maps a user to an object whose only property ever written is
  \<open>guessing\<close>; the map below goes straight to that property, so both an absent user
  and an absent property are \<open>None\<close>.
\<close>

record MemStorage =
  users :: "nat \<rightharpoonup> user"
  userGames :: "nat \<rightharpoonup> guessing_state"
  scores :: "(nat \<times> score list) list"
  games :: "(nat \<times> game) list"

definition getGameName :: "string \<Rightarrow> string" where
  "getGameName t =
     (if t = ''guessing'' then ''Guessing Game''
      else if t = ''spinwheel'' then ''Spin Wheel''
      else if t = ''redlight'' then ''Red Light, Green Light''
      else if t = ''typeracer'' then ''Type Racer''
      else if t = ''cse17'' then ''CSE-17 Bread Game''
      else ''Unknown Game'')"

text \<open>The game found or created by \<open>MemStorage.recordScore\<close>, with the catalog after it.\<close>

definition mem_getOrCreateGame ::
  "MemStorage \<Rightarrow> string \<Rightarrow> timestamp \<Rightarrow> nat \<times> (nat \<times> game) list" where
  "mem_getOrCreateGame st gameType now =
     (case find (\<lambda>g. g_type g = gameType) (map snd (games st)) of
        None \<Rightarrow>
          (let newId = length (games st) + 1;
               g = \<lparr>g_id = newId, g_type = gameType, g_name = getGameName gameType,
                    g_createdAt = now\<rparr>
           in (newId, map_set newId g (games st)))
      | Some g \<Rightarrow> (g_id g, games st))"

definition mem_recordScore ::
  "MemStorage \<Rightarrow> nat \<Rightarrow> string \<Rightarrow> real \<Rightarrow> timestamp \<Rightarrow> MemStorage" where
  "mem_recordScore st uid gameType v now =
     (let (gid, games') = mem_getOrCreateGame st gameType now;
          sc = \<lparr>userId = uid, gameId = gid, s_value = v, createdAt = now\<rparr>;
          userScores = (case map_of (scores st) uid of None \<Rightarrow> [] | Some ss \<Rightarrow> ss)
      in st\<lparr>games := games', scores := map_set uid (userScores @ [sc]) (scores st)\<rparr>)"

text \<open>The block "Update user's games played count" shared by the MemStorage operations.\<close>

definition mem_countGame :: "MemStorage \<Rightarrow> nat \<Rightarrow> MemStorage" where
  "mem_countGame st uid =
     (case users st uid of
        None \<Rightarrow> st
      | Some u \<Rightarrow> st\<lparr>users := (users st)(uid \<mapsto> u\<lparr>gamesPlayed := gamesPlayed u + 1\<rparr>)\<rparr>)"

text \<open>
  \<open>r\<close> is the value of \<open>Math.random()\<close>; the target is
  \<open>Math.floor(Math.random() * 100) + 1\<close>.
\<close>

definition newGameState :: "nat \<Rightarrow> real \<Rightarrow> guessing_state" where
  "newGameState uid r =
     \<lparr>targetNumber = js_add (of_int \<lfloor>js_mul r 100\<rfloor>) 1, attempts = 0, maxAttempts = 10,
      previousGuesses = [], gameOver = False, gs_userId = uid\<rparr>"

definition mem_startGuessingGame :: "MemStorage \<Rightarrow> nat \<Rightarrow> real \<Rightarrow> MemStorage" where
  "mem_startGuessingGame st uid r =
     mem_countGame (st\<lparr>userGames := (userGames st)(uid \<mapsto> newGameState uid r)\<rparr>) uid"

definition mem_startRedLightGame :: "MemStorage \<Rightarrow> nat \<Rightarrow> MemStorage" where
  "mem_startRedLightGame st uid = mem_countGame st uid"

definition guessMessage :: "real \<Rightarrow> real \<Rightarrow> string" where
  "guessMessage guess target =
     (if guess = target then ''correct''
      else if guess < target then ''too low'' else ''too high'')"

definition mem_makeGuess ::
  "MemStorage \<Rightarrow> nat \<Rightarrow> real \<Rightarrow> timestamp \<Rightarrow> MemStorage \<times> guess_response" where
  "mem_makeGuess st uid guess now =
     (case userGames st uid of
        None \<Rightarrow> (st, Inl ''No active guessing game found'')
      | Some game0 \<Rightarrow>
          if gameOver game0 then (st, Inl ''Game is already over'')
          else if guess \<in> set (previousGuesses game0)
          then (st, Inl ''You already tried this number'')
          else
            let game1 = game0\<lparr>attempts := attempts game0 + 1,
                               previousGuesses := previousGuesses game0 @ [guess]\<rparr>;
                target = targetNumber game1;
                correct = (guess = target);
                game2 = (if correct then game1\<lparr>gameOver := True\<rparr> else game1);
                st1 = (if correct
                       then mem_recordScore st uid ''guessing'' (of_int (attempts game1)) now
                       else st);
                left = maxAttempts game2 - attempts game2;
                game3 = (if left \<le> 0 \<and> \<not> correct then game2\<lparr>gameOver := True\<rparr> else game2)
            in (st1\<lparr>userGames := (userGames st1)(uid \<mapsto> game3)\<rparr>,
                Inr \<lparr>message = guessMessage guess target, isCorrect = correct,
                     attemptsLeft = left, gr_previousGuesses = previousGuesses game3,
                     correctNumber = (if gameOver game3 then Some target else None)\<rparr>))"

section \<open>DatabaseStorage\<close>

text \<open>
  The three tables of the shared schema are lists of rows in insertion order. Every query
  that DatabaseStorage builds has the meaning of the SQL statement it names: \<open>select\<close>
  with \<open>where\<close> keeps the matching rows (the first of them where the result is
  destructured as \<open>[row]\<close>), \<open>innerJoin\<close> pairs the rows that satisfy the join
  condition, \<open>insert\<close> appends a row, \<open>update\<close> rewrites the matching rows, and a query
  without \<open>orderBy\<close> is taken to return its rows in table order. The foreign key of
  \<open>scores.user_id\<close> rejects a score of an absent user. The column \<open>scores.value\<close> has
  the type \<open>real\<close>; a score value is taken to be one that the column holds as it is. The
  guessing sessions live in process memory, as in MemStorage.
\<close>

record DatabaseStorage =
  tbl_users :: "user list"
  tbl_games :: "game list"
  tbl_scores :: "score list"
  db_userGames :: "nat \<rightharpoonup> guessing_state"

text \<open>
  What a DatabaseStorage operation can throw: the \<open>Error\<close> of \<open>getGameIdByType\<close>, a
  \<open>TypeError\<close> (reading \<open>gamesPlayed\<close> of an absent user, calling what is not a function),
  and the rejection of a score row whose \<open>user_id\<close> references no user.
\<close>

datatype exn = Error string | TypeError | ForeignKeyViolation

text \<open>An operation returns the state it leaves behind together with its outcome.\<close>

type_synonym 'a db_result = "DatabaseStorage \<times> (exn + 'a)"

definition db_getUser :: "DatabaseStorage \<Rightarrow> nat \<Rightarrow> user option" where
  "db_getUser st uid = find (\<lambda>u. u_id u = uid) (tbl_users st)"

definition db_getGameIdByType :: "DatabaseStorage \<Rightarrow> string \<Rightarrow> exn + nat" where
  "db_getGameIdByType st gameType =
     (case find (\<lambda>g. g_type g = gameType) (tbl_games st) of
        None \<Rightarrow> Inl (Error (''Game type '' @ gameType @ '' not found''))
      | Some g \<Rightarrow> Inr (g_id g))"

definition db_updateUser :: "DatabaseStorage \<Rightarrow> nat \<Rightarrow> int \<Rightarrow> timestamp \<Rightarrow> DatabaseStorage" where
  "db_updateUser st uid n now =
     st\<lparr>tbl_users := map (\<lambda>u. if u_id u = uid then u\<lparr>gamesPlayed := n, updatedAt := now\<rparr> else u)
                         (tbl_users st)\<rparr>"

text \<open>
  The expression \<open>db.sql`${users.gamesPlayed} + 1`\<close> of \<open>recordScore\<close>. \<open>db\<close> is the
  drizzle database exported by \<open>./db\<close>; storage.ts imports \<open>eq\<close>, \<open>asc\<close> and \<open>desc\<close>
  from drizzle-orm and not its \<open>sql\<close> tag, and a drizzle database has the query builders
  (\<open>select\<close>, \<open>insert\<close>, \<open>update\<close>, \<open>delete\<close>) and no member \<open>sql\<close>. The tag of the
  template is therefore \<open>undefined\<close>, and calling it throws a \<open>TypeError\<close>. Had it a
  value, it would be the column expression that adds one to the counter.
\<close>

definition db_sql :: "exn + (int \<Rightarrow> int)" where
  "db_sql = Inl TypeError"

text \<open>
  \<open>recordScore\<close> awaits the insert of the score first. The object passed to \<open>set\<close> is
  built next, and with it \<open>db.sql\<close> is called: the exception leaves the inserted row in
  the table, and no \<open>UPDATE\<close> of \<open>users\<close> is sent.
\<close>

definition db_recordScore ::
  "DatabaseStorage \<Rightarrow> nat \<Rightarrow> string \<Rightarrow> real \<Rightarrow> timestamp \<Rightarrow> unit db_result" where
  "db_recordScore st uid gameType v now =
     (case db_getGameIdByType st gameType of
        Inl e \<Rightarrow> (st, Inl e)
      | Inr gid \<Rightarrow>
          if db_getUser st uid = None then (st, Inl ForeignKeyViolation)
          else
            let st1 = st\<lparr>tbl_scores := tbl_scores st @
                           [\<lparr>userId = uid, gameId = gid, s_value = v, createdAt = now\<rparr>]\<rparr>
            in case db_sql of
                 Inl e \<Rightarrow> (st1, Inl e)
               | Inr plusOne \<Rightarrow>
                   (st1\<lparr>tbl_users := map (\<lambda>u. if u_id u = uid
                                                then u\<lparr>gamesPlayed := plusOne (gamesPlayed u),
                                                       updatedAt := now\<rparr>
                                                else u) (tbl_users st1)\<rparr>,
                    Inr ()))"

text \<open>The statement "Update user's games played count" of the DatabaseStorage start operations.\<close>

definition db_countGame :: "DatabaseStorage \<Rightarrow> nat \<Rightarrow> timestamp \<Rightarrow> unit db_result" where
  "db_countGame st uid now =
     (case db_getUser st uid of
        None \<Rightarrow> (st, Inl TypeError)
      | Some u \<Rightarrow> (db_updateUser st uid (gamesPlayed u + 1) now, Inr ()))"

definition db_startGuessingGame ::
  "DatabaseStorage \<Rightarrow> nat \<Rightarrow> real \<Rightarrow> timestamp \<Rightarrow> unit db_result" where
  "db_startGuessingGame st uid r now =
     db_countGame (st\<lparr>db_userGames := (db_userGames st)(uid \<mapsto> newGameState uid r)\<rparr>) uid now"

definition db_startRedLightGame :: "DatabaseStorage \<Rightarrow> nat \<Rightarrow> timestamp \<Rightarrow> unit db_result" where
  "db_startRedLightGame st uid now = db_countGame st uid now"

text \<open>
  \<open>game\<close> is the object held by \<open>userGames\<close>, so the increments and \<open>gameOver = true\<close>
  are in the map before \<open>recordScore\<close> is awaited: they stay when it throws, and
  \<open>makeGuess\<close> then rejects with the exception instead of returning a response.
\<close>

definition db_makeGuess ::
  "DatabaseStorage \<Rightarrow> nat \<Rightarrow> real \<Rightarrow> timestamp \<Rightarrow> guess_response db_result" where
  "db_makeGuess st uid guess now =
     (case db_userGames st uid of
        None \<Rightarrow> (st, Inr (Inl ''No active guessing game found''))
      | Some game0 \<Rightarrow>
          if gameOver game0 then (st, Inr (Inl ''Game is already over''))
          else if guess \<in> set (previousGuesses game0)
          then (st, Inr (Inl ''You already tried this number''))
          else
            let game1 = game0\<lparr>attempts := attempts game0 + 1,
                               previousGuesses := previousGuesses game0 @ [guess]\<rparr>;
                target = targetNumber game1;
                correct = (guess = target);
                game2 = (if correct then game1\<lparr>gameOver := True\<rparr> else game1);
                recorded = (if correct
                            then db_recordScore st uid ''guessing'' (of_int (attempts game1)) now
                            else (st, Inr ()))
            in case recorded of
                 (st1, Inl e) \<Rightarrow> (st1\<lparr>db_userGames := (db_userGames st1)(uid \<mapsto> game2)\<rparr>, Inl e)
               | (st1, Inr u) \<Rightarrow>
                   let left = maxAttempts game2 - attempts game2;
                       game3 = (if left \<le> 0 \<and> \<not> correct then game2\<lparr>gameOver := True\<rparr>
                                else game2)
                   in (st1\<lparr>db_userGames := (db_userGames st1)(uid \<mapsto> game3)\<rparr>,
                       Inr (Inr \<lparr>message = guessMessage guess target, isCorrect = correct,
                                 attemptsLeft = left, gr_previousGuesses = previousGuesses game3,
                                 correctNumber = (if gameOver game3 then Some target else None)\<rparr>)))"

section \<open>The spin wheel\<close>

record prize =
  p_value :: real
  p_label :: string
  probability :: real

text \<open>
  The prize table. A decimal literal denotes the Number value for the decimal: \<open>0.25\<close> is
  a binary64 number, the other four weights are not.
\<close>

definition prizes :: "prize list" where
  "prizes =
     [\<lparr>p_value = 100, p_label = ''100 Points'', probability = numberValue 0.2\<rparr>,
      \<lparr>p_value = 250, p_label = ''250 Points'', probability = numberValue 0.15\<rparr>,
      \<lparr>p_value = 500, p_label = ''500 Points'', probability = numberValue 0.1\<rparr>,
      \<lparr>p_value = 1000, p_label = ''1000 Points'', probability = numberValue 0.05\<rparr>,
      \<lparr>p_value = 0, p_label = ''Try Again'', probability = numberValue 0.25\<rparr>,
      \<lparr>p_value = 150, p_label = ''150 Points'', probability = numberValue 0.15\<rparr>,
      \<lparr>p_value = 750, p_label = ''750 Points'', probability = numberValue 0.05\<rparr>,
      \<lparr>p_value = 300, p_label = ''300 Points'', probability = numberValue 0.05\<rparr>]"

text \<open>
  The loop \<open>for (const prize of prizes)\<close>: \<open>cum\<close> is \<open>cumulativeProbability\<close> before
  the prize at the head is added by \<open>+=\<close>, \<open>sel\<close> is \<open>selectedPrize\<close>, which the loop
  leaves as it is when no prize matches.
\<close>

fun selectPrize :: "real \<Rightarrow> real \<Rightarrow> prize \<Rightarrow> prize list \<Rightarrow> prize" where
  "selectPrize random cum sel [] = sel"
| "selectPrize random cum sel (p # ps) =
     (if random \<le> js_add cum (probability p) then p
      else selectPrize random (js_add cum (probability p)) sel ps)"

text \<open>\<open>Array.prototype.indexOf\<close>: the first position of the element, \<open>-1\<close> when absent.\<close>

fun indexOf :: "'a list \<Rightarrow> 'a \<Rightarrow> int" where
  "indexOf [] x = -1"
| "indexOf (y # ys) x =
     (if y = x then 0 else (let i = indexOf ys x in if i < 0 then -1 else i + 1))"

record spin_result =
  sr_prize :: string
  sr_value :: real
  degrees :: real

text \<open>
  \<open>random\<close> and \<open>random2\<close> are the two values of \<open>Math.random()\<close>, in the order drawn.
  \<open>prizes[0]\<close> is the first prize of the non-empty list above.
\<close>

definition selectedPrize :: "real \<Rightarrow> prize" where
  "selectedPrize random = selectPrize random 0 (hd prizes) prizes"

definition spinResult :: "real \<Rightarrow> real \<Rightarrow> spin_result" where
  "spinResult random random2 =
     (let sel = selectedPrize random;
          baseDegrees = 1800;
          prizeIndex = indexOf prizes sel;
          degreesPerPrize = js_div 360 (real (length prizes));
          offset = js_mul degreesPerPrize (of_int prizeIndex);
          randomOffset = js_mul random2 (js_mul degreesPerPrize (numberValue 0.8))
      in \<lparr>sr_prize = p_label sel, sr_value = p_value sel,
          degrees = js_add (js_add baseDegrees offset) randomOffset\<rparr>)"

definition mem_spinWheel ::
  "MemStorage \<Rightarrow> nat \<Rightarrow> real \<Rightarrow> real \<Rightarrow> timestamp \<Rightarrow> MemStorage \<times> spin_result" where
  "mem_spinWheel st uid random random2 now =
     (let sel = selectedPrize random;
          st1 = (if p_value sel > 0 then mem_recordScore st uid ''spinwheel'' (p_value sel) now
                 else st)
      in (mem_countGame st1 uid, spinResult random random2))"

definition db_spinWheel ::
  "DatabaseStorage \<Rightarrow> nat \<Rightarrow> real \<Rightarrow> real \<Rightarrow> timestamp \<Rightarrow> spin_result db_result" where
  "db_spinWheel st uid random random2 now =
     (let sel = selectedPrize random
      in if p_value sel > 0
         then (case db_recordScore st uid ''spinwheel'' (p_value sel) now of
                 (st1, Inl e) \<Rightarrow> (st1, Inl e)
               | (st1, Inr u) \<Rightarrow> (st1, Inr (spinResult random random2)))
         else (st, Inr (spinResult random random2)))"

text \<open>
  The accumulated range of the spec: \<open>cumulativeProbability\<close> after the weights of the
  first \<open>i\<close> prizes were added to it, one \<open>+=\<close> at a time. A draw falls within the range
  of prize \<open>i\<close> (counted from 0) when it is at most \<open>cumulativeWeight (i + 1)\<close> and above the
  ranges before it.
\<close>

definition cumulativeWeight :: "nat \<Rightarrow> real" where
  "cumulativeWeight i = foldl (\<lambda>cum p. js_add cum (probability p)) 0 (take i prizes)"

section \<open>Sorting and rounding\<close>

text \<open>
  \<open>Array.prototype.sort(compare)\<close> is stable: elements that compare equal keep their
  order. When \<open>compare\<close> is a consistent ordering of the elements there is one stable
  arrangement, and stable insertion computes it. (For an inconsistent \<open>compare\<close> the
  language leaves the order to the engine; nothing below is stated for that case.)
  The result of \<open>compare\<close> counts for its sign alone. The comparators of the server
  return a difference of two numbers, and the Number value for a difference has the sign
  of the difference, so the comparators below return the difference itself.
\<close>

fun insert_cmp :: "('a \<Rightarrow> 'a \<Rightarrow> real) \<Rightarrow> 'a \<Rightarrow> 'a list \<Rightarrow> 'a list" where
  "insert_cmp cmp x [] = [x]"
| "insert_cmp cmp x (y # ys) =
     (if cmp x y \<le> 0 then x # y # ys else y # insert_cmp cmp x ys)"

definition js_sort :: "('a \<Rightarrow> 'a \<Rightarrow> real) \<Rightarrow> 'a list \<Rightarrow> 'a list" where
  "js_sort cmp xs = foldr (insert_cmp cmp) xs []"

text \<open>\<open>Math.round\<close>: the nearest integer, a half going up.\<close>

definition js_round :: "real \<Rightarrow> int" where
  "js_round x = \<lfloor>x + 1 / 2\<rfloor>"

text \<open>\<open>xs[i]\<close> for a computed index: \<open>undefined\<close> outside the array is \<open>None\<close>.\<close>

definition js_index :: "'a list \<Rightarrow> int \<Rightarrow> 'a option" where
  "js_index xs i = (if 0 \<le> i \<and> i < int (length xs) then Some (xs ! nat i) else None)"

section \<open>Type Racer\<close>

definition prompts :: "string list" where
  "prompts =
     [''The quick brown fox jumps over the lazy dog.'',
      ''Programming is the art of telling a computer what to do.'',
      ''Video games are an exciting form of entertainment for people of all ages.'',
      ''The best way to predict the future is to invent it.'',
      ''You miss 100% of the shots you don't take.'']"

definition selectPrompt :: "real \<Rightarrow> string option" where
  "selectPrompt r = js_index prompts \<lfloor>js_mul r (real (length prompts))\<rfloor>"

definition mem_startTypeRacerGame :: "MemStorage \<Rightarrow> nat \<Rightarrow> real \<Rightarrow> MemStorage \<times> string option" where
  "mem_startTypeRacerGame st uid r = (mem_countGame st uid, selectPrompt r)"

definition db_startTypeRacerGame ::
  "DatabaseStorage \<Rightarrow> nat \<Rightarrow> real \<Rightarrow> timestamp \<Rightarrow> string option db_result" where
  "db_startTypeRacerGame st uid r now =
     (case db_countGame st uid now of
        (st1, Inl e) \<Rightarrow> (st1, Inl e)
      | (st1, Inr u) \<Rightarrow> (st1, Inr (selectPrompt r)))"

record tr_entry =
  tr_rank :: int
  tr_player :: string
  wpm :: int
  accuracy :: int

definition sampleLeaderboard :: "tr_entry list" where
  "sampleLeaderboard =
     [\<lparr>tr_rank = 1, tr_player = ''SpeedTyper'', wpm = 124, accuracy = 98\<rparr>,
      \<lparr>tr_rank = 2, tr_player = ''TypeMaster'', wpm = 116, accuracy = 96\<rparr>,
      \<lparr>tr_rank = 3, tr_player = ''KeyboardNinja'', wpm = 105, accuracy = 94\<rparr>]"

text \<open>The loop "Assign ranks": \<open>entry.rank = currentRank++\<close>.\<close>

fun tr_assignRanks :: "int \<Rightarrow> tr_entry list \<Rightarrow> tr_entry list" where
  "tr_assignRanks currentRank [] = []"
| "tr_assignRanks currentRank (e # es) =
     e\<lparr>tr_rank := currentRank\<rparr> # tr_assignRanks (currentRank + 1) es"

text \<open>\<open>this.games.get(score.gameId)\<close> exists and has the given type.\<close>

definition mem_scoreHasType :: "MemStorage \<Rightarrow> string \<Rightarrow> score \<Rightarrow> bool" where
  "mem_scoreHasType st gameType s =
     (case map_of (games st) (gameId s) of None \<Rightarrow> False | Some g \<Rightarrow> g_type g = gameType)"

text \<open>The callback of \<open>reduce\<close> that keeps the score of highest value.\<close>

definition higher :: "score \<Rightarrow> score \<Rightarrow> score" where
  "higher best current = (if s_value current > s_value best then current else best)"

text \<open>What one iteration of the loop over \<open>this.scores.entries()\<close> pushes.\<close>

definition mem_typeRacerEntry :: "MemStorage \<Rightarrow> nat \<times> score list \<Rightarrow> tr_entry list" where
  "mem_typeRacerEntry st kv =
     (case users st (fst kv) of
        None \<Rightarrow> []
      | Some u \<Rightarrow>
          (case filter (mem_scoreHasType st ''typeracer'') (snd kv) of
             [] \<Rightarrow> []
           | t # ts \<Rightarrow>
               [\<lparr>tr_rank = 0, tr_player = username u,
                 wpm = js_round (s_value (foldl higher t (t # ts))), accuracy = 95\<rparr>]))"

definition mem_getTypeRacerLeaderboard :: "MemStorage \<Rightarrow> tr_entry list" where
  "mem_getTypeRacerLeaderboard st =
     (let allScores = concat (map (mem_typeRacerEntry st) (scores st));
          sorted = js_sort (\<lambda>a b. of_int (wpm b) - of_int (wpm a)) allScores;
          ranked = tr_assignRanks 1 sorted
      in if ranked = [] then sampleLeaderboard else ranked)"

text \<open>
  The rows of the query of \<open>DatabaseStorage.getTypeRacerLeaderboard\<close>: scores joined with
  their users, of the given game, by descending value (rows of equal value in table order).
\<close>

record tr_row =
  row_userId :: nat
  row_value :: real
  row_username :: string

definition db_typeRacerScores :: "DatabaseStorage \<Rightarrow> nat \<Rightarrow> tr_row list" where
  "db_typeRacerScores st gid =
     js_sort (\<lambda>a b. row_value b - row_value a)
       (concat (map (\<lambda>s. map (\<lambda>u. \<lparr>row_userId = userId s, row_value = s_value s,
                                       row_username = username u\<rparr>)
                              (filter (\<lambda>u. userId s = u_id u) (tbl_users st)))
                    (filter (\<lambda>s. gameId s = gid) (tbl_scores st))))"

text \<open>The body of the loop "Group by user and take best score" on \<open>userBestScores\<close>.\<close>

definition groupBest :: "(nat \<times> real) list \<Rightarrow> tr_row \<Rightarrow> (nat \<times> real) list" where
  "groupBest m row =
     (case map_of m (row_userId row) of
        None \<Rightarrow> map_set (row_userId row) (row_value row) m
      | Some b \<Rightarrow> if b < row_value row then map_set (row_userId row) (row_value row) m else m)"

text \<open>The loop "Create leaderboard entries"; \<open>rank\<close> advances with every entry pushed.\<close>

fun db_typeRacerEntries :: "tr_row list \<Rightarrow> int \<Rightarrow> (nat \<times> real) list \<Rightarrow> tr_entry list" where
  "db_typeRacerEntries rows rank [] = []"
| "db_typeRacerEntries rows rank (kv # rest) =
     (case find (\<lambda>s. row_userId s = fst kv) rows of
        None \<Rightarrow> db_typeRacerEntries rows rank rest
      | Some row \<Rightarrow>
          \<lparr>tr_rank = rank, tr_player = row_username row, wpm = js_round (snd kv),
           accuracy = 95\<rparr> # db_typeRacerEntries rows (rank + 1) rest)"

definition db_getTypeRacerLeaderboard :: "DatabaseStorage \<Rightarrow> exn + tr_entry list" where
  "db_getTypeRacerLeaderboard st =
     (case db_getGameIdByType st ''typeracer'' of
        Inl e \<Rightarrow> Inl e
      | Inr gid \<Rightarrow>
          (let typeRacerScores = db_typeRacerScores st gid;
               userBestScores = foldl groupBest [] typeRacerScores;
               result = db_typeRacerEntries typeRacerScores 1
                          (js_sort (\<lambda>a b. snd b - snd a) userBestScores)
           in Inr (if result = [] then sampleLeaderboard else result)))"

text \<open>
  The objects that the score submissions return are property lists, read by name:
  a property that the object literal does not have reads as \<open>undefined\<close>, here \<open>None\<close>.
\<close>

datatype js_val = JBool bool | JNum real | JBoard "tr_entry list"

type_synonym js_object = "(string \<times> js_val) list"

definition getProp :: "js_object \<Rightarrow> string \<Rightarrow> js_val option" where
  "getProp obj name = map_of obj name"

text \<open>The condition of an \<open>if\<close>: \<open>undefined\<close>, \<open>false\<close> and \<open>0\<close> are falsy, an array is truthy.\<close>

fun truthy :: "js_val option \<Rightarrow> bool" where
  "truthy None = False"
| "truthy (Some (JBool b)) = b"
| "truthy (Some (JNum x)) = (x \<noteq> 0)"
| "truthy (Some (JBoard es)) = True"

definition mem_submitTypeRacerScore ::
  "MemStorage \<Rightarrow> nat \<Rightarrow> real \<Rightarrow> real \<Rightarrow> timestamp \<Rightarrow> MemStorage \<times> js_object" where
  "mem_submitTypeRacerScore st uid w acc now =
     (let st1 = mem_recordScore st uid ''typeracer'' w now
      in (st1, [(''success'', JBool True),
                (''leaderboard'', JBoard (mem_getTypeRacerLeaderboard st1))]))"

definition db_submitTypeRacerScore ::
  "DatabaseStorage \<Rightarrow> nat \<Rightarrow> real \<Rightarrow> real \<Rightarrow> timestamp \<Rightarrow> js_object db_result" where
  "db_submitTypeRacerScore st uid w acc now =
     (case db_recordScore st uid ''typeracer'' w now of
        (st1, Inl e) \<Rightarrow> (st1, Inl e)
      | (st1, Inr u) \<Rightarrow>
          (case db_getTypeRacerLeaderboard st1 of
             Inl e \<Rightarrow> (st1, Inl e)
           | Inr leaderboard \<Rightarrow>
               (st1, Inr [(''success'', JBool True), (''leaderboard'', JBoard leaderboard)])))"

section \<open>The bread game (cse17)\<close>

record bread_stats =
  bs_gamesPlayed :: nat
  highScore :: real
  averageScore :: int

text \<open>
  The query calls \<open>where\<close> twice on one builder. The builder holds a single condition,
  which each call assigns, so the condition of the statement is that of the second call:
  the rows are the scores of the game, of every user, and \<open>userId\<close> does not filter.
\<close>

definition db_getBreadGameStats :: "DatabaseStorage \<Rightarrow> nat \<Rightarrow> exn + bread_stats" where
  "db_getBreadGameStats st uid =
     (case db_getGameIdByType st ''cse17'' of
        Inl e \<Rightarrow> Inl e
      | Inr gid \<Rightarrow>
          (let userScores = filter (\<lambda>s. gameId s = gid) (tbl_scores st);
               n = length userScores;
               high = foldl (\<lambda>h s. if s_value s > h then s_value s else h) 0 userScores;
               totalScore = foldl (\<lambda>t s. js_add t (s_value s)) 0 userScores
           in Inr \<lparr>bs_gamesPlayed = n, highScore = high,
                   averageScore = (if n > 0 then js_round (js_div totalScore (real n)) else 0)\<rparr>))"

definition db_startBreadGame :: "DatabaseStorage \<Rightarrow> nat \<Rightarrow> timestamp \<Rightarrow> unit db_result" where
  "db_startBreadGame st uid now = db_countGame st uid now"

definition db_submitBreadGameScore ::
  "DatabaseStorage \<Rightarrow> nat \<Rightarrow> real \<Rightarrow> timestamp \<Rightarrow> js_object db_result" where
  "db_submitBreadGameScore st uid sc now =
     (case db_recordScore st uid ''cse17'' sc now of
        (st1, Inl e) \<Rightarrow> (st1, Inl e)
      | (st1, Inr u) \<Rightarrow>
          (case db_getBreadGameStats st1 uid of
             Inl e \<Rightarrow> (st1, Inl e)
           | Inr stats \<Rightarrow>
               (st1, Inr [(''success'', JBool True), (''highScore'', JNum (highScore stats))])))"

section \<open>The leaderboard\<close>

text \<open>
  A formatted score is a text. \<open>digits\<close> writes a natural number in decimal.
\<close>

fun digits :: "nat \<Rightarrow> string" where
  "digits n =
     (if n < 10 then [''0123456789'' ! n]
      else digits (n div 10) @ [''0123456789'' ! (n mod 10)])"

declare digits.simps [simp del]

text \<open>
  \<open>Number.prototype.toFixed(1)\<close> of a number \<open>x\<close>: below \<open>10^21\<close> in magnitude, a sign for
  a negative \<open>x\<close>, then the integer \<open>n\<close> nearest to ten times the magnitude (the larger of
  two equally near), written with a point before its last digit. A number of magnitude at
  least \<open>10^21\<close> is written as the conversion to text \<open>str\<close> writes it.

  \<open>str\<close> is the conversion of a number to text of a template literal, \<open>`${value}`\<close>: it
  yields the shortest decimal that reads back as the same binary64 number, which is not a
  function of the real number alone. It is a parameter of the operations that format
  scores.
\<close>

definition toFixed1 :: "(real \<Rightarrow> string) \<Rightarrow> real \<Rightarrow> string" where
  "toFixed1 str x =
     (if \<bar>x\<bar> \<ge> 10 ^ 21 then str x
      else (let n = nat \<lfloor>\<bar>x\<bar> * 10 + 1 / 2\<rfloor>
            in (if x < 0 then ''-'' else '''') @ digits (n div 10) @ ''.'' @ digits (n mod 10)))"

definition formatScore :: "(real \<Rightarrow> string) \<Rightarrow> string \<Rightarrow> real \<Rightarrow> string" where
  "formatScore str gameType v =
     (if gameType = ''guessing'' then str v @ '' attempts''
      else if gameType = ''redlight'' then toFixed1 str v @ ''s''
      else if gameType = ''typeracer'' then str v @ '' WPM''
      else str v @ '' pts'')"

text \<open>\<open>s.replace(/[^\d.]/g, '')\<close> keeps the digits and the points.\<close>

definition isDigit :: "char \<Rightarrow> bool" where
  "isDigit c = (c \<in> set ''0123456789'')"

definition stripNonNumeric :: "string \<Rightarrow> string" where
  "stripNonNumeric s = filter (\<lambda>c. isDigit c \<or> c = CHR ''.'') s"

text \<open>The number written by a text of digits.\<close>

definition digitsValue :: "string \<Rightarrow> nat" where
  "digitsValue s = foldl (\<lambda>n c. 10 * n + (of_char c - 48)) 0 s"

text \<open>
  \<open>parseFloat\<close> on a text of digits and points, as the comparator applies it: the Number
  value for the longest prefix that is a decimal literal (digits, then optionally a point
  and digits, with a digit somewhere), and \<open>NaN\<close>, here \<open>None\<close>, when there is none.
\<close>

definition parseFloat :: "string \<Rightarrow> real option" where
  "parseFloat s =
     (let ip = takeWhile isDigit s;
          rest = dropWhile isDigit s;
          fp = (case rest of [] \<Rightarrow> [] | c # t \<Rightarrow> if c = CHR ''.'' then takeWhile isDigit t else [])
      in if ip = [] \<and> fp = [] then None
         else Some (numberValue (real (digitsValue ip) + real (digitsValue fp) / 10 ^ length fp)))"

record lb_entry =
  lb_rank :: int
  lb_player :: string
  lb_game :: string
  lb_gameType :: string
  lb_score :: string
  lb_date :: string

text \<open>Subtraction of two parsed numbers; the difference with a \<open>NaN\<close> is \<open>NaN\<close>.\<close>

definition js_minus :: "real option \<Rightarrow> real option \<Rightarrow> real option" where
  "js_minus a b = (case a of None \<Rightarrow> None | Some x \<Rightarrow> (case b of None \<Rightarrow> None | Some y \<Rightarrow> Some (x - y)))"

text \<open>
  The comparator of \<open>getLeaderboard\<close>, the same in both storage classes. \<open>sort\<close> takes a
  \<open>NaN\<close> result for \<open>0\<close>.
\<close>

definition compareEntries :: "lb_entry \<Rightarrow> lb_entry \<Rightarrow> real" where
  "compareEntries a b =
     (let aValue = parseFloat (stripNonNumeric (lb_score a));
          bValue = parseFloat (stripNonNumeric (lb_score b));
          result = (if lb_gameType a = ''guessing'' then js_minus aValue bValue
                    else if lb_gameType a = ''redlight'' then js_minus aValue bValue
                    else js_minus bValue aValue)
      in case result of None \<Rightarrow> 0 | Some d \<Rightarrow> d)"

fun lb_assignRanks :: "int \<Rightarrow> lb_entry list \<Rightarrow> lb_entry list" where
  "lb_assignRanks currentRank [] = []"
| "lb_assignRanks currentRank (e # es) =
     e\<lparr>lb_rank := currentRank\<rparr> # lb_assignRanks (currentRank + 1) es"

text \<open>\<open>new Date(createdAt).toISOString().split('T')[0]\<close> of an ISO 8601 timestamp.\<close>

definition isoDate :: "timestamp \<Rightarrow> string" where
  "isoDate t = takeWhile (\<lambda>c. c \<noteq> CHR ''T'') t"

definition makeEntry :: "(real \<Rightarrow> string) \<Rightarrow> string \<Rightarrow> game \<Rightarrow> score \<Rightarrow> lb_entry" where
  "makeEntry str name g s =
     \<lparr>lb_rank = 0, lb_player = name, lb_game = g_name g, lb_gameType = g_type g,
      lb_score = formatScore str (g_type g) (s_value s), lb_date = isoDate (createdAt s)\<rparr>"

text \<open>What the loop over \<open>this.scores.entries()\<close> pushes for one user.\<close>

definition mem_userEntries ::
  "(real \<Rightarrow> string) \<Rightarrow> MemStorage \<Rightarrow> string \<Rightarrow> nat \<times> score list \<Rightarrow> lb_entry list" where
  "mem_userEntries str st gameType kv =
     (case users st (fst kv) of
        None \<Rightarrow> []
      | Some u \<Rightarrow>
          concat (map (\<lambda>s. case map_of (games st) (gameId s) of
                              None \<Rightarrow> []
                            | Some g \<Rightarrow>
                                if gameType = ''all'' \<or> g_type g = gameType
                                then [makeEntry str (username u) g s] else [])
                      (snd kv)))"

definition mem_getLeaderboard ::
  "(real \<Rightarrow> string) \<Rightarrow> MemStorage \<Rightarrow> string \<Rightarrow> lb_entry list" where
  "mem_getLeaderboard str st gameType =
     (let allScores = concat (map (mem_userEntries str st gameType) (scores st))
      in lb_assignRanks 1 (js_sort compareEntries allScores))"

text \<open>
  The query of \<open>DatabaseStorage.getLeaderboard\<close>: scores joined with their users and, for
  a filter other than "all", with their games of that type. \<open>gameMap\<close> is filled from
  the whole \<open>games\<close> table, a later row replacing an earlier one of the same id.
\<close>

definition db_scoreResults :: "DatabaseStorage \<Rightarrow> string \<Rightarrow> (score \<times> user) list" where
  "db_scoreResults st gameType =
     concat (map (\<lambda>s. concat (map (\<lambda>u.
         if gameType \<noteq> ''all''
         then map (\<lambda>g. (s, u)) (filter (\<lambda>g. gameId s = g_id g \<and> g_type g = gameType) (tbl_games st))
         else [(s, u)])
       (filter (\<lambda>u. userId s = u_id u) (tbl_users st)))) (tbl_scores st))"

definition db_gameMap :: "DatabaseStorage \<Rightarrow> (nat \<times> game) list" where
  "db_gameMap st = foldl (\<lambda>m g. map_set (g_id g) g m) [] (tbl_games st)"

definition db_getLeaderboard ::
  "(real \<Rightarrow> string) \<Rightarrow> DatabaseStorage \<Rightarrow> string \<Rightarrow> lb_entry list" where
  "db_getLeaderboard str st gameType =
     (let allScores =
            concat (map (\<lambda>su. case map_of (db_gameMap st) (gameId (fst su)) of
                                 None \<Rightarrow> []
                               | Some g \<Rightarrow> [makeEntry str (username (snd su)) g (fst su)])
                        (db_scoreResults st gameType))
      in lb_assignRanks 1 (js_sort compareEntries allScores))"

section \<open>The score routes and the broadcast (server/routes.ts)\<close>

text \<open>
  A connected WebSocket client and whether its \<open>readyState\<close> is \<open>OPEN\<close>. What the server
  sends is kept as the list of (client, message) pairs, a message being the object that
  \<open>broadcastLeaderboard\<close> serialises.
\<close>

record ws_client =
  client_id :: nat
  isOpen :: bool

record winner_data =
  w_player :: string
  w_game :: string
  w_gameType :: string
  w_score :: "string option"
  w_message :: string

record ws_message =
  m_type :: string
  m_data :: "lb_entry list"
  m_winner :: "winner_data option"

definition broadcastLeaderboard ::
  "(real \<Rightarrow> string) \<Rightarrow> DatabaseStorage \<Rightarrow> ws_client list \<Rightarrow> string \<Rightarrow> winner_data option
     \<Rightarrow> (nat \<times> ws_message) list" where
  "broadcastLeaderboard str st connectedClients gameType winnerData =
     (let leaderboard = db_getLeaderboard str st gameType;
          msg = \<lparr>m_type = (if winnerData \<noteq> None then ''winner'' else ''leaderboard''),
                 m_data = leaderboard, m_winner = winnerData\<rparr>
      in map (\<lambda>c. (client_id c, msg)) (filter isOpen connectedClients))"

text \<open>\<open>res.json(result)\<close>, or \<open>res.status(code).json({ message })\<close>.\<close>

datatype http_response = Json js_object | Status nat string

text \<open>How a template literal writes a property read from the result.\<close>

fun showProp :: "(real \<Rightarrow> string) \<Rightarrow> js_val option \<Rightarrow> string" where
  "showProp str None = ''undefined''"
| "showProp str (Some (JBool b)) = (if b then ''true'' else ''false'')"
| "showProp str (Some (JNum x)) = str x"
| "showProp str (Some (JBoard es)) = ''[object Object]''"

text \<open>
  \<open>POST /api/games/typeracer/score\<close> for the authenticated user \<open>u\<close>, with a body whose
  \<open>wpm\<close> and \<open>accuracy\<close> are numbers; the schema rejects a negative \<open>wpm\<close> and an
  \<open>accuracy\<close> outside 0..100, and every exception ends in the status 400. \<open>storage\<close> is
  the DatabaseStorage. The result is the storage, the response and the messages sent.
\<close>

definition typeracerScoreRoute ::
  "(real \<Rightarrow> string) \<Rightarrow> DatabaseStorage \<Rightarrow> ws_client list \<Rightarrow> user \<Rightarrow> real \<Rightarrow> real \<Rightarrow> timestamp
     \<Rightarrow> DatabaseStorage \<times> http_response \<times> (nat \<times> ws_message) list" where
  "typeracerScoreRoute str st connectedClients u w acc now =
     (if \<not> (0 \<le> w \<and> 0 \<le> acc \<and> acc \<le> 100)
      then (st, Status 400 ''Invalid score submission'', [])
      else case db_submitTypeRacerScore st (u_id u) w acc now of
             (st1, Inl e) \<Rightarrow> (st1, Status 400 ''Invalid score submission'', [])
           | (st1, Inr result) \<Rightarrow>
               (st1, Json result,
                if truthy (getProp result ''isHighScore'')
                then broadcastLeaderboard str st1 connectedClients ''typeracer''
                       (Some \<lparr>w_player = username u, w_game = ''Type Racer'',
                              w_gameType = ''typeracer'', w_score = Some (str w @ '' WPM''),
                              w_message = username u @ '' just achieved a new high score of ''
                                @ str w @ '' WPM with '' @ str acc
                                @ ''% accuracy in Type Racer!''\<rparr>)
                else []))"

text \<open>\<open>POST /api/games/bread/score\<close>; the schema rejects a negative \<open>score\<close>.\<close>

definition breadScoreRoute ::
  "(real \<Rightarrow> string) \<Rightarrow> DatabaseStorage \<Rightarrow> ws_client list \<Rightarrow> user \<Rightarrow> real \<Rightarrow> timestamp
     \<Rightarrow> DatabaseStorage \<times> http_response \<times> (nat \<times> ws_message) list" where
  "breadScoreRoute str st connectedClients u sc now =
     (if \<not> 0 \<le> sc
      then (st, Status 400 ''Invalid score submission'', [])
      else case db_submitBreadGameScore st (u_id u) sc now of
             (st1, Inl e) \<Rightarrow> (st1, Status 400 ''Invalid score submission'', [])
           | (st1, Inr result) \<Rightarrow>
               (st1, Json result,
                if truthy (getProp result ''isHighScore'')
                then broadcastLeaderboard str st1 connectedClients ''cse17''
                       (Some \<lparr>w_player = username u, w_game = ''CSE-17 Bread Game'',
                              w_gameType = ''cse17'',
                              w_score = map_option (\<lambda>v. showProp str (Some v)) (getProp result ''score''),
                              w_message = username u @ '' just achieved a new high score of ''
                                @ showProp str (getProp result ''score'')
                                @ '' in the Bread Game!''\<rparr>)
                else []))"

section \<open>The players of the type racer leaderboard and their best\<close>

text \<open>
  The statement of the leaderboard, in the words of the spec: the users who have submitted
  a type racer score, each with the WPM values they submitted. In MemStorage there is one
  pair for every key of the \<open>scores\<close> map whose user exists and has such a score, in
  DatabaseStorage one pair for every row of \<open>users\<close> that has one. \<open>bestWpm\<close> is what
  the entry of such a user shows: the name and the maximum of the values, rounded as
  \<open>Math.round\<close> rounds.
\<close>

definition mem_typeRacerValues :: "MemStorage \<Rightarrow> score list \<Rightarrow> real list" where
  "mem_typeRacerValues st ss = map s_value (filter (mem_scoreHasType st ''typeracer'') ss)"

definition mem_typeRacerPlayers :: "MemStorage \<Rightarrow> (user \<times> real list) list" where
  "mem_typeRacerPlayers st =
     concat (map (\<lambda>kv. case users st (fst kv) of
                          None \<Rightarrow> []
                        | Some u \<Rightarrow> if mem_typeRacerValues st (snd kv) = [] then []
                                    else [(u, mem_typeRacerValues st (snd kv))])
                 (scores st))"

definition db_typeRacerValues :: "DatabaseStorage \<Rightarrow> nat \<Rightarrow> nat \<Rightarrow> real list" where
  "db_typeRacerValues st gid uid =
     map s_value (filter (\<lambda>s. userId s = uid \<and> gameId s = gid) (tbl_scores st))"

definition db_typeRacerPlayers :: "DatabaseStorage \<Rightarrow> nat \<Rightarrow> (user \<times> real list) list" where
  "db_typeRacerPlayers st gid =
     concat (map (\<lambda>u. if db_typeRacerValues st gid (u_id u) = [] then []
                       else [(u, db_typeRacerValues st gid (u_id u))])
                 (tbl_users st))"

definition bestWpm :: "user \<times> real list \<Rightarrow> string \<times> int" where
  "bestWpm p = (username (fst p), js_round (Max (set (snd p))))"

text \<open>The player and the WPM of each entry of a board.\<close>

definition boardPairs :: "tr_entry list \<Rightarrow> (string \<times> int) list" where
  "boardPairs board = map (\<lambda>e. (tr_player e, wpm e)) board"

text \<open>
  Auxiliary notions of the proofs: the entry pushed for a player, the running best of the
  grouping loop, the name and the entry that the last loop of
  \<open>DatabaseStorage.getTypeRacerLeaderboard\<close> finds for a user id, and the pair that the
  grouping holds for a player.
\<close>

definition entryOf :: "user \<times> real list \<Rightarrow> tr_entry" where
  "entryOf p = \<lparr>tr_rank = 0, tr_player = username (fst p), wpm = js_round (Max (set (snd p))),
               accuracy = 95\<rparr>"

definition better :: "real option \<Rightarrow> real \<Rightarrow> real option" where
  "better b v = Some (case b of None \<Rightarrow> v | Some x \<Rightarrow> max x v)"

definition playerName :: "DatabaseStorage \<Rightarrow> nat \<Rightarrow> string" where
  "playerName st k = (case db_getUser st k of None \<Rightarrow> [] | Some u \<Rightarrow> username u)"

definition bestEntry :: "DatabaseStorage \<Rightarrow> nat \<times> real \<Rightarrow> tr_entry" where
  "bestEntry st kv = \<lparr>tr_rank = 0, tr_player = playerName st (fst kv), wpm = js_round (snd kv),
                     accuracy = 95\<rparr>"

definition bestOfUser :: "user \<times> real list \<Rightarrow> nat \<times> real" where
  "bestOfUser p = (u_id (fst p), Max (set (snd p)))"

section \<open>Observations\<close>

text \<open>The games-played counter of a user, as each storage class would read it.\<close>

definition mem_gamesPlayed :: "MemStorage \<Rightarrow> nat \<Rightarrow> int option" where
  "mem_gamesPlayed st uid = map_option gamesPlayed (users st uid)"

definition db_gamesPlayed :: "DatabaseStorage \<Rightarrow> nat \<Rightarrow> int option" where
  "db_gamesPlayed st uid = map_option gamesPlayed (db_getUser st uid)"

section \<open>Example states\<close>

definition t0 :: timestamp where
  "t0 = ''2025-01-01T10:00:00.000Z''"

definition alice :: user where
  "alice = \<lparr>u_id = 1, username = ''alice'', gamesPlayed = 0, updatedAt = t0\<rparr>"

text \<open>The catalog inserted by \<open>initializeGameData\<close> into an empty \<open>games\<close> table.\<close>

definition seededGames :: "game list" where
  "seededGames =
     [\<lparr>g_id = 1, g_type = ''guessing'', g_name = ''Guessing Game'', g_createdAt = t0\<rparr>,
      \<lparr>g_id = 2, g_type = ''spinwheel'', g_name = ''Spin Wheel'', g_createdAt = t0\<rparr>,
      \<lparr>g_id = 3, g_type = ''redlight'', g_name = ''Red Light, Green Light'', g_createdAt = t0\<rparr>,
      \<lparr>g_id = 4, g_type = ''typeracer'', g_name = ''Type Racer'', g_createdAt = t0\<rparr>,
      \<lparr>g_id = 5, g_type = ''cse17'', g_name = ''CSE-17 Bread Game'', g_createdAt = t0\<rparr>]"

text \<open>A session with target 42 after the wrong guess 50, and one after nine wrong guesses.\<close>

definition session42 :: guessing_state where
  "session42 = \<lparr>targetNumber = 42, attempts = 1, maxAttempts = 10, previousGuesses = [50],
                 gameOver = False, gs_userId = 1\<rparr>"

definition sessionLast :: guessing_state where
  "sessionLast = \<lparr>targetNumber = 42, attempts = 9, maxAttempts = 10,
                   previousGuesses = [50, 25, 37, 43, 40, 41, 45, 44, 46],
                   gameOver = False, gs_userId = 1\<rparr>"

definition mem42 :: MemStorage where
  "mem42 = \<lparr>users = [1 \<mapsto> alice], userGames = [1 \<mapsto> session42], scores = [], games = []\<rparr>"

definition db42 :: DatabaseStorage where
  "db42 = \<lparr>tbl_users = [alice], tbl_games = seededGames, tbl_scores = [],
            db_userGames = [1 \<mapsto> session42]\<rparr>"

definition memLast :: MemStorage where
  "memLast = mem42\<lparr>userGames := [1 \<mapsto> sessionLast]\<rparr>"

definition dbLast :: DatabaseStorage where
  "dbLast = db42\<lparr>db_userGames := [1 \<mapsto> sessionLast]\<rparr>"

text \<open>
  The session of target 42 after the guess 42, and the storage that each \<open>makeGuess\<close>
  leaves behind for that guess: the session is over and the score of two attempts is in
  the ledger.
\<close>

definition session42Won :: guessing_state where
  "session42Won = session42\<lparr>attempts := 2, previousGuesses := [50, 42], gameOver := True\<rparr>"

definition mem42Won :: MemStorage where
  "mem42Won =
     \<lparr>users = [1 \<mapsto> alice], userGames = [1 \<mapsto> session42Won],
      scores = [(1, [\<lparr>userId = 1, gameId = 1, s_value = 2, createdAt = t0\<rparr>])],
      games = [(1, \<lparr>g_id = 1, g_type = ''guessing'', g_name = ''Guessing Game'',
                    g_createdAt = t0\<rparr>)]\<rparr>"

definition db42Won :: DatabaseStorage where
  "db42Won =
     \<lparr>tbl_users = [alice], tbl_games = seededGames,
      tbl_scores = [\<lparr>userId = 1, gameId = 1, s_value = 2, createdAt = t0\<rparr>],
      db_userGames = [1 \<mapsto> session42Won]\<rparr>"

text \<open>A \<open>games\<close> table without its guessing row, and one without its redlight row.\<close>

definition dbNoGuessing :: DatabaseStorage where
  "dbNoGuessing = db42\<lparr>tbl_games := tl seededGames\<rparr>"

definition dbNoRedlight :: DatabaseStorage where
  "dbNoRedlight = db42\<lparr>tbl_games := filter (\<lambda>g. g_type g \<noteq> ''redlight'') seededGames\<rparr>"

text \<open>
  The database after \<open>recordScore\<close> was called with alice's red light time of 12.3
  seconds, and after a spin that drew the prize of 100 points: the score is in the table.
\<close>

definition dbAfterRedlight :: DatabaseStorage where
  "dbAfterRedlight =
     db42\<lparr>tbl_scores := [\<lparr>userId = 1, gameId = 3, s_value = 12.3, createdAt = t0\<rparr>]\<rparr>"


text \<open>A later clock reading; alice with one earlier score in the type racer and bread games,
  before and after a better score is submitted; two connected viewers.\<close>

definition t1 :: timestamp where
  "t1 = ''2025-01-02T09:30:00.000Z''"

definition dbTyping :: DatabaseStorage where
  "dbTyping = db42\<lparr>tbl_scores := [\<lparr>userId = 1, gameId = 4, s_value = 50, createdAt = t0\<rparr>]\<rparr>"

definition dbTypingAfter :: DatabaseStorage where
  "dbTypingAfter =
     dbTyping\<lparr>tbl_scores := [\<lparr>userId = 1, gameId = 4, s_value = 50, createdAt = t0\<rparr>,
                               \<lparr>userId = 1, gameId = 4, s_value = 80, createdAt = t1\<rparr>]\<rparr>"

definition dbBread :: DatabaseStorage where
  "dbBread = db42\<lparr>tbl_scores := [\<lparr>userId = 1, gameId = 5, s_value = 100, createdAt = t0\<rparr>]\<rparr>"

definition dbBreadAfter :: DatabaseStorage where
  "dbBreadAfter =
     dbBread\<lparr>tbl_scores := [\<lparr>userId = 1, gameId = 5, s_value = 100, createdAt = t0\<rparr>,
                              \<lparr>userId = 1, gameId = 5, s_value = 200, createdAt = t1\<rparr>]\<rparr>"

definition viewers :: "ws_client list" where
  "viewers = [\<lparr>client_id = 1, isOpen = True\<rparr>, \<lparr>client_id = 2, isOpen = True\<rparr>]"

text \<open>Alice's two red light times, -5 and then 3 seconds, in each storage class.\<close>

definition redlightGame :: game where
  "redlightGame = \<lparr>g_id = 3, g_type = ''redlight'', g_name = ''Red Light, Green Light'',
                    g_createdAt = t0\<rparr>"

definition memRedlight :: MemStorage where
  "memRedlight =
     \<lparr>users = [1 \<mapsto> alice], userGames = Map.empty,
      scores = [(1, [\<lparr>userId = 1, gameId = 3, s_value = -5, createdAt = t0\<rparr>,
                     \<lparr>userId = 1, gameId = 3, s_value = 3, createdAt = t1\<rparr>])],
      games = [(3, redlightGame)]\<rparr>"

definition dbRedlight :: DatabaseStorage where
  "dbRedlight =
     \<lparr>tbl_users = [alice], tbl_games = seededGames,
      tbl_scores = [\<lparr>userId = 1, gameId = 3, s_value = -5, createdAt = t0\<rparr>,
                    \<lparr>userId = 1, gameId = 3, s_value = 3, createdAt = t1\<rparr>],
      db_userGames = Map.empty\<rparr>"

text \<open>Two players with type racer scores (and a red light time), and a fractional WPM.\<close>

definition bob :: user where
  "bob = \<lparr>u_id = 2, username = ''bob'', gamesPlayed = 0, updatedAt = t0\<rparr>"

definition typeracerGame :: game where
  "typeracerGame = \<lparr>g_id = 4, g_type = ''typeracer'', g_name = ''Type Racer'', g_createdAt = t0\<rparr>"

definition memBoard :: MemStorage where
  "memBoard =
     \<lparr>users = [1 \<mapsto> alice, 2 \<mapsto> bob], userGames = Map.empty,
      scores = [(2, [\<lparr>userId = 2, gameId = 4, s_value = 72.4, createdAt = t0\<rparr>]),
                (1, [\<lparr>userId = 1, gameId = 4, s_value = 50, createdAt = t0\<rparr>,
                     \<lparr>userId = 1, gameId = 3, s_value = 12.3, createdAt = t0\<rparr>,
                     \<lparr>userId = 1, gameId = 4, s_value = 80, createdAt = t1\<rparr>])],
      games = [(4, typeracerGame), (3, redlightGame)]\<rparr>"

definition dbBoard :: DatabaseStorage where
  "dbBoard =
     \<lparr>tbl_users = [alice, bob], tbl_games = seededGames,
      tbl_scores = [\<lparr>userId = 2, gameId = 4, s_value = 72.4, createdAt = t0\<rparr>,
                    \<lparr>userId = 1, gameId = 4, s_value = 50, createdAt = t0\<rparr>,
                    \<lparr>userId = 1, gameId = 3, s_value = 12.3, createdAt = t0\<rparr>,
                    \<lparr>userId = 1, gameId = 4, s_value = 80, createdAt = t1\<rparr>],
      db_userGames = Map.empty\<rparr>"

definition memFraction :: MemStorage where
  "memFraction =
     \<lparr>users = [1 \<mapsto> alice], userGames = Map.empty,
      scores = [(1, [\<lparr>userId = 1, gameId = 4, s_value = 80.6, createdAt = t0\<rparr>])],
      games = [(4, typeracerGame)]\<rparr>"

definition dbFraction :: DatabaseStorage where
  "dbFraction =
     \<lparr>tbl_users = [alice], tbl_games = seededGames,
      tbl_scores = [\<lparr>userId = 1, gameId = 4, s_value = 80.6, createdAt = t0\<rparr>],
      db_userGames = Map.empty\<rparr>"

text \<open>Alice's two bread game scores, ten to the power 21 and then 200.\<close>

definition breadGame :: game where
  "breadGame = \<lparr>g_id = 5, g_type = ''cse17'', g_name = ''CSE-17 Bread Game'', g_createdAt = t0\<rparr>"

definition memHuge :: MemStorage where
  "memHuge =
     \<lparr>users = [1 \<mapsto> alice], userGames = Map.empty,
      scores = [(1, [\<lparr>userId = 1, gameId = 5, s_value = 10 ^ 21, createdAt = t0\<rparr>,
                     \<lparr>userId = 1, gameId = 5, s_value = 200, createdAt = t1\<rparr>])],
      games = [(5, breadGame)]\<rparr>"

definition dbHuge :: DatabaseStorage where
  "dbHuge =
     \<lparr>tbl_users = [alice], tbl_games = seededGames,
      tbl_scores = [\<lparr>userId = 1, gameId = 5, s_value = 10 ^ 21, createdAt = t0\<rparr>,
                    \<lparr>userId = 1, gameId = 5, s_value = 200, createdAt = t1\<rparr>],
      db_userGames = Map.empty\<rparr>"

section \<open>Evaluating binary64 arithmetic\<close>

lemma bitLength_numeral:
  "bitLength 0 = 0"
  "bitLength (Suc 0) = Suc 0"
  "bitLength (numeral (Num.Bit0 n)) = Suc (bitLength (numeral n))"
  "bitLength (numeral (Num.Bit1 n)) = Suc (bitLength (numeral n))"
proof -
  show "bitLength 0 = 0"
    by (simp add: bitLength.simps)
  show "bitLength (Suc 0) = Suc 0"
    by (simp add: bitLength.simps)
  have "numeral (Num.Bit0 n) div (2::nat) = numeral n"
    by simp
  then show "bitLength (numeral (Num.Bit0 n)) = Suc (bitLength (numeral n))"
    by (subst bitLength.simps) simp
  have "numeral (Num.Bit1 n) div (2::nat) = numeral n"
    by simp
  then show "bitLength (numeral (Num.Bit1 n)) = Suc (bitLength (numeral n))"
    by (subst bitLength.simps) simp
qed

lemmas number_eval =
  js_add_def js_mul_def js_div_def numberValue_def binade_def pow2_def roundHalfEven_def
  Let_def bitLength_numeral

text \<open>
  The weights of the prize table as binary64 numbers, and the running sum of
  \<open>cumulativeProbability\<close>: 0.2, 0.35, 0.44999999999999996, 0.49999999999999994, 0.75, 0.9,
  0.9500000000000001 and 1.
\<close>

lemma weight_values:
  "numberValue (1 / 5) = 3602879701896397 / 18014398509481984"
  "numberValue (3 / 20) = 5404319552844595 / 36028797018963968"
  "numberValue (1 / 10) = 3602879701896397 / 36028797018963968"
  "numberValue (1 / 20) = 3602879701896397 / 72057594037927936"
  "numberValue (1 / 4) = 1 / 4"
  "numberValue (4 / 5) = 3602879701896397 / 4503599627370496"
  by (simp_all add: number_eval)

lemma sum_steps:
  "js_add 0 (3602879701896397 / 18014398509481984) = 3602879701896397 / 18014398509481984"
  "js_add (3602879701896397 / 18014398509481984) (5404319552844595 / 36028797018963968) =
     3152519739159347 / 9007199254740992"
  "js_add (3152519739159347 / 9007199254740992) (3602879701896397 / 36028797018963968) =
     2026619832316723 / 4503599627370496"
  "js_add (2026619832316723 / 4503599627370496) (3602879701896397 / 72057594037927936) =
     9007199254740991 / 18014398509481984"
  "js_add (9007199254740991 / 18014398509481984) (1 / 4) = 3 / 4"
  "js_add (3 / 4) (5404319552844595 / 36028797018963968) = 8106479329266893 / 9007199254740992"
  "js_add (8106479329266893 / 9007199254740992) (3602879701896397 / 72057594037927936) =
     8556839292003943 / 9007199254740992"
  "js_add (8556839292003943 / 9007199254740992) (3602879701896397 / 72057594037927936) = 1"
  by (simp_all add: number_eval)

lemma cumulativeWeight_values:
  "cumulativeWeight (Suc 0) = 3602879701896397 / 18014398509481984"
  "cumulativeWeight 2 = 3152519739159347 / 9007199254740992"
  "cumulativeWeight 3 = 2026619832316723 / 4503599627370496"
  "cumulativeWeight 4 = 9007199254740991 / 18014398509481984"
  "cumulativeWeight 5 = 3 / 4"
  "cumulativeWeight 6 = 8106479329266893 / 9007199254740992"
  "cumulativeWeight 7 = 8556839292003943 / 9007199254740992"
  "cumulativeWeight 8 = 1"
  by (simp_all add: cumulativeWeight_def prizes_def weight_values sum_steps)

text \<open>The arithmetic of the rotation: 45 degrees a prize, and 36 of them for the offset.\<close>

lemma degrees_steps:
  "js_div 360 8 = 45"
  "js_mul 45 (3602879701896397 / 4503599627370496) = 36"
  "js_mul 45 0 = 0"
  "js_mul 45 4 = 180"
  "js_mul (1 / 2) 36 = 18"
  "js_add 1800 0 = 1800"
  "js_add 1800 180 = 1980"
  "js_add 1800 18 = 1818"
  "js_add 1980 18 = 1998"
  by (simp_all add: number_eval)

text \<open>
  The products with a draw are rounded before \<open>Math.floor\<close> sees them: the draw 0.15
  gives the target 16, and the draw 0.6 the fourth prompt, where the exact products lie
  just below 15 and 3.
\<close>

lemma start_examples:
  "numberValue (3 / 20) * 100 < 15"
  "targetNumber (newGameState uid (numberValue (3 / 20))) = 16"
  "numberValue (3 / 5) * 5 < 3"
  "selectPrompt (numberValue (3 / 5)) = Some ''The best way to predict the future is to invent it.''"
  by (simp_all add: newGameState_def selectPrompt_def js_index_def prompts_def number_eval)

lemma js_round_examples:
  "js_round (numeral n) = numeral n" "js_round (362 / 5) = 72" "js_round (403 / 5) = 81"
  by (simp_all add: js_round_def)

section \<open>The guessing game\<close>

lemma map_of_map_set: "map_of (map_set k v kvs) = (map_of kvs)(k \<mapsto> v)"
  by (induction kvs) auto

lemma mem_makeGuess_duplicate:
  assumes "userGames ms uid = Some g" and "guess \<in> set (previousGuesses g)"
  shows "mem_makeGuess ms uid guess now =
           (ms, Inl (if gameOver g then ''Game is already over''
                     else ''You already tried this number''))"
  using assms by (simp add: mem_makeGuess_def)

lemma db_makeGuess_duplicate:
  assumes "db_userGames ds uid = Some g" and "guess \<in> set (previousGuesses g)"
  shows "db_makeGuess ds uid guess now =
           (ds, Inr (Inl (if gameOver g then ''Game is already over''
                          else ''You already tried this number'')))"
  using assms by (simp add: db_makeGuess_def)

text \<open>
  Claim C3. A guess that is already among the session's previous guesses is answered with
  an error object and the storage is returned as it was: the attempt counter, the session
  and the score ledger are untouched. The error is "You already tried this number" for a
  running session, and "Game is already over" for a finished one, whose guard comes first.
  This holds for MemStorage and for DatabaseStorage.
\<close>

theorem makeGuess_duplicate_rejected:
  assumes "userGames ms uid = Some g" and "db_userGames ds uid = Some g"
    and "guess \<in> set (previousGuesses g)"
  shows "mem_makeGuess ms uid guess now =
           (ms, Inl (if gameOver g then ''Game is already over''
                     else ''You already tried this number'')) \<and>
         db_makeGuess ds uid guess now =
           (ds, Inr (Inl (if gameOver g then ''Game is already over''
                          else ''You already tried this number'')))"
  using assms by (simp add: mem_makeGuess_duplicate db_makeGuess_duplicate)

theorem makeGuess_duplicate_rejected_witness:
  "mem_makeGuess mem42 1 50 t0 = (mem42, Inl ''You already tried this number'') \<and>
   db_makeGuess db42 1 50 t0 = (db42, Inr (Inl ''You already tried this number''))"
proof -
  have s: "userGames mem42 1 = Some session42" "db_userGames db42 1 = Some session42"
    by (simp_all add: mem42_def db42_def)
  have d: "50 \<in> set (previousGuesses session42)"
    by (simp add: session42_def)
  have "\<not> gameOver session42"
    by (simp add: session42_def)
  with makeGuess_duplicate_rejected [OF s d, of t0] show ?thesis
    by simp
qed

lemma mem_makeGuess_lose:
  assumes "userGames ms uid = Some g" and "\<not> gameOver g"
    and "guess \<notin> set (previousGuesses g)" and "guess \<noteq> targetNumber g"
    and "attempts g = 9" and "maxAttempts g = 10"
  shows "mem_makeGuess ms uid guess now =
     (ms\<lparr>userGames := (userGames ms)(uid \<mapsto> g\<lparr>attempts := 10,
             previousGuesses := previousGuesses g @ [guess], gameOver := True\<rparr>)\<rparr>,
      Inr \<lparr>message = (if guess < targetNumber g then ''too low'' else ''too high''),
           isCorrect = False, attemptsLeft = 0,
           gr_previousGuesses = previousGuesses g @ [guess],
           correctNumber = Some (targetNumber g)\<rparr>)"
  using assms by (simp add: mem_makeGuess_def Let_def guessMessage_def)

lemma db_makeGuess_lose:
  assumes "db_userGames ds uid = Some g" and "\<not> gameOver g"
    and "guess \<notin> set (previousGuesses g)" and "guess \<noteq> targetNumber g"
    and "attempts g = 9" and "maxAttempts g = 10"
  shows "db_makeGuess ds uid guess now =
     (ds\<lparr>db_userGames := (db_userGames ds)(uid \<mapsto> g\<lparr>attempts := 10,
             previousGuesses := previousGuesses g @ [guess], gameOver := True\<rparr>)\<rparr>,
      Inr (Inr \<lparr>message = (if guess < targetNumber g then ''too low'' else ''too high''),
                isCorrect = False, attemptsLeft = 0,
                gr_previousGuesses = previousGuesses g @ [guess],
                correctNumber = Some (targetNumber g)\<rparr>))"
  using assms by (simp add: db_makeGuess_def Let_def guessMessage_def)

text \<open>
  Claim C4. In a running session with nine attempts out of ten, a fresh guess that is not
  the target is the tenth attempt: the stored session becomes game-over, the response is
  not correct, has no attempts left and carries the target as \<open>correctNumber\<close>, and the
  storage changes in nothing but the session, so no score is recorded (the \<open>scores\<close> and
  \<open>games\<close> of MemStorage and the three tables of DatabaseStorage are those of before).
\<close>

theorem makeGuess_tenth_wrong_guess_loses:
  assumes "userGames ms uid = Some g" and "db_userGames ds uid = Some g"
    and "\<not> gameOver g" and "guess \<notin> set (previousGuesses g)"
    and "guess \<noteq> targetNumber g" and "attempts g = 9" and "maxAttempts g = 10"
  shows "mem_makeGuess ms uid guess now =
     (ms\<lparr>userGames := (userGames ms)(uid \<mapsto> g\<lparr>attempts := 10,
             previousGuesses := previousGuesses g @ [guess], gameOver := True\<rparr>)\<rparr>,
      Inr \<lparr>message = (if guess < targetNumber g then ''too low'' else ''too high''),
           isCorrect = False, attemptsLeft = 0,
           gr_previousGuesses = previousGuesses g @ [guess],
           correctNumber = Some (targetNumber g)\<rparr>) \<and>
    db_makeGuess ds uid guess now =
     (ds\<lparr>db_userGames := (db_userGames ds)(uid \<mapsto> g\<lparr>attempts := 10,
             previousGuesses := previousGuesses g @ [guess], gameOver := True\<rparr>)\<rparr>,
      Inr (Inr \<lparr>message = (if guess < targetNumber g then ''too low'' else ''too high''),
                isCorrect = False, attemptsLeft = 0,
                gr_previousGuesses = previousGuesses g @ [guess],
                correctNumber = Some (targetNumber g)\<rparr>))"
  using assms by (simp add: mem_makeGuess_lose db_makeGuess_lose)

theorem makeGuess_tenth_wrong_guess_loses_witness:
  "mem_makeGuess memLast 1 47 t0 =
     (memLast\<lparr>userGames := [1 \<mapsto> sessionLast\<lparr>attempts := 10,
                 previousGuesses := [50, 25, 37, 43, 40, 41, 45, 44, 46, 47],
                 gameOver := True\<rparr>]\<rparr>,
      Inr \<lparr>message = ''too high'', isCorrect = False, attemptsLeft = 0,
           gr_previousGuesses = [50, 25, 37, 43, 40, 41, 45, 44, 46, 47],
           correctNumber = Some 42\<rparr>) \<and>
   scores (fst (mem_makeGuess memLast 1 47 t0)) = [] \<and>
   tbl_scores (fst (db_makeGuess dbLast 1 47 t0)) = [] \<and>
   snd (db_makeGuess dbLast 1 47 t0) =
     Inr (Inr \<lparr>message = ''too high'', isCorrect = False, attemptsLeft = 0,
               gr_previousGuesses = [50, 25, 37, 43, 40, 41, 45, 44, 46, 47],
               correctNumber = Some 42\<rparr>)"
proof -
  have s: "userGames memLast 1 = Some sessionLast" "db_userGames dbLast 1 = Some sessionLast"
    by (simp_all add: memLast_def dbLast_def)
  have h: "\<not> gameOver sessionLast" "47 \<notin> set (previousGuesses sessionLast)"
    "47 \<noteq> targetNumber sessionLast" "attempts sessionLast = 9" "maxAttempts sessionLast = 10"
    by (simp_all add: sessionLast_def)
  show ?thesis
    using makeGuess_tenth_wrong_guess_loses [OF s h, of t0]
    by (simp add: sessionLast_def memLast_def dbLast_def mem42_def db42_def)
qed

lemma mem_makeGuess_win:
  assumes "userGames ms uid = Some g" and "\<not> gameOver g"
    and "guess \<notin> set (previousGuesses g)" and "guess = targetNumber g"
  shows "mem_makeGuess ms uid guess now =
     ((mem_recordScore ms uid ''guessing'' (of_int (attempts g + 1)) now)
        \<lparr>userGames := (userGames ms)(uid \<mapsto> g\<lparr>attempts := attempts g + 1,
             previousGuesses := previousGuesses g @ [guess], gameOver := True\<rparr>)\<rparr>,
      Inr \<lparr>message = ''correct'', isCorrect = True,
           attemptsLeft = maxAttempts g - (attempts g + 1),
           gr_previousGuesses = previousGuesses g @ [guess],
           correctNumber = Some (targetNumber g)\<rparr>)"
  using assms
  by (simp add: mem_makeGuess_def Let_def guessMessage_def mem_recordScore_def split: prod.splits)

lemma mem_recordScore_scores:
  "map_of (scores (mem_recordScore st uid gt v now)) =
     (map_of (scores st))(uid \<mapsto>
        (case map_of (scores st) uid of None \<Rightarrow> [] | Some ss \<Rightarrow> ss) @
        [\<lparr>userId = uid, gameId = fst (mem_getOrCreateGame st gt now), s_value = v,
          createdAt = now\<rparr>])"
  by (simp add: mem_recordScore_def Let_def map_of_map_set split: prod.splits)

text \<open>
  \<open>DatabaseStorage.recordScore\<close> never returns: it throws in \<open>getGameIdByType\<close>, at the
  insert, or at \<open>db.sql\<close> after the insert. The \<open>users\<close> table is the same afterwards.
\<close>

lemma db_recordScore_throws: "\<exists>e. snd (db_recordScore ds uid gt v now) = Inl e"
  by (simp add: db_recordScore_def db_sql_def Let_def split: sum.splits)

lemma db_recordScore_users: "tbl_users (fst (db_recordScore ds uid gt v now)) = tbl_users ds"
  by (simp add: db_recordScore_def db_sql_def Let_def split: sum.splits)

lemma db_recordScore_sessions:
  "db_userGames (fst (db_recordScore ds uid gt v now)) = db_userGames ds"
  by (simp add: db_recordScore_def db_sql_def Let_def split: sum.splits)

lemma db_recordScore_inserts:
  assumes "db_getGameIdByType ds gt = Inr gid" and "db_getUser ds uid = Some u"
  shows "db_recordScore ds uid gt v now =
     (ds\<lparr>tbl_scores := tbl_scores ds @
            [\<lparr>userId = uid, gameId = gid, s_value = v, createdAt = now\<rparr>]\<rparr>,
      Inl TypeError)"
  using assms by (simp add: db_recordScore_def db_sql_def Let_def)

lemma db_makeGuess_win:
  assumes "db_userGames ds uid = Some g" and "\<not> gameOver g"
    and "guess \<notin> set (previousGuesses g)" and "guess = targetNumber g"
    and "db_recordScore ds uid ''guessing'' (of_int (attempts g + 1)) now = (ds1, Inl e)"
  shows "db_makeGuess ds uid guess now =
     (ds1\<lparr>db_userGames := (db_userGames ds1)(uid \<mapsto> g\<lparr>attempts := attempts g + 1,
             previousGuesses := previousGuesses g @ [guess], gameOver := True\<rparr>)\<rparr>,
      Inl e)"
  using assms by (simp add: db_makeGuess_def Let_def guessMessage_def)

text \<open>
  In every state of the DatabaseStorage, a fresh guess that equals the target of a running
  session gets an exception for an answer. When the catalog has the guessing row and the
  user's row exists, the score of the win is inserted before the exception.
\<close>

lemma db_makeGuess_win_gets_no_response:
  assumes "db_userGames ds uid = Some g" and "\<not> gameOver g"
    and "guess \<notin> set (previousGuesses g)" and "guess = targetNumber g"
  shows "\<exists>e. snd (db_makeGuess ds uid guess now) = Inl e"
proof -
  obtain ds1 res where r: "db_recordScore ds uid ''guessing'' (of_int (attempts g + 1)) now = (ds1, res)"
    by (cases "db_recordScore ds uid ''guessing'' (of_int (attempts g + 1)) now")
  from db_recordScore_throws [of ds uid "''guessing''" "of_int (attempts g + 1)" now] r
  obtain e where "res = Inl e"
    by auto
  with r db_makeGuess_win [OF assms, of now ds1 e] show ?thesis
    by simp
qed

lemma db_makeGuess_win_inserts:
  assumes "db_userGames ds uid = Some g" and "\<not> gameOver g"
    and "guess \<notin> set (previousGuesses g)" and "guess = targetNumber g"
    and "db_getGameIdByType ds ''guessing'' = Inr gid" and "db_getUser ds uid = Some u"
  shows "db_makeGuess ds uid guess now =
     (ds\<lparr>tbl_scores := tbl_scores ds @
            [\<lparr>userId = uid, gameId = gid, s_value = of_int (attempts g + 1), createdAt = now\<rparr>],
         db_userGames := (db_userGames ds)(uid \<mapsto> g\<lparr>attempts := attempts g + 1,
             previousGuesses := previousGuesses g @ [guess], gameOver := True\<rparr>)\<rparr>,
      Inl TypeError)"
  using db_makeGuess_win [OF assms(1-4) db_recordScore_inserts [OF assms(5,6)]]
  by simp

text \<open>
  Claim C2 at a failing input. Alice's session has the target 42 and one wrong guess, 50;
  she guesses 42. \<open>MemStorage.makeGuess\<close> ends the session as won, records the score of
  two attempts and answers "correct" with \<open>isCorrect\<close> true. \<open>DatabaseStorage.makeGuess\<close>,
  with the seeded catalog and alice's row in \<open>users\<close>, ends the session and inserts the
  same score, and then \<open>recordScore\<close> throws the \<open>TypeError\<close> of \<open>db.sql\<close>: the call
  rejects and no response is returned (\<open>db_makeGuess_win_gets_no_response\<close>: in no state
  does a winning guess get one).
\<close>

theorem correct_guess_gets_no_response:
  "mem_makeGuess mem42 1 42 t0 =
     (mem42Won,
      Inr \<lparr>message = ''correct'', isCorrect = True, attemptsLeft = 8,
           gr_previousGuesses = [50, 42], correctNumber = Some 42\<rparr>) \<and>
   db_makeGuess db42 1 42 t0 = (db42Won, Inl TypeError) \<and>
   tbl_scores db42Won = [\<lparr>userId = 1, gameId = 1, s_value = 2, createdAt = t0\<rparr>] \<and>
   map_option gameOver (db_userGames db42Won 1) = Some True"
  by (simp add: mem_makeGuess_def db_makeGuess_def mem42_def db42_def mem42Won_def db42Won_def
      session42_def session42Won_def guessMessage_def Let_def
      mem_recordScore_def mem_getOrCreateGame_def getGameName_def
      db_recordScore_def db_sql_def db_getGameIdByType_def db_getUser_def seededGames_def
      alice_def)

section \<open>The games-played counter and the catalog\<close>

lemma find_users_map:
  "find (\<lambda>u. u_id u = k)
        (map (\<lambda>u. if u_id u = uid then u\<lparr>gamesPlayed := f u, updatedAt := now\<rparr> else u) xs) =
     (if k = uid
      then map_option (\<lambda>u. u\<lparr>gamesPlayed := f u, updatedAt := now\<rparr>) (find (\<lambda>u. u_id u = k) xs)
      else find (\<lambda>u. u_id u = k) xs)"
  by (induction xs) auto

lemma db_countGame_counts:
  assumes "db_getUser ds uid = Some u"
  shows "snd (db_countGame ds uid now) = Inr () \<and>
         db_gamesPlayed (fst (db_countGame ds uid now)) uid = Some (gamesPlayed u + 1)"
  using assms
  by (simp add: db_countGame_def db_updateUser_def db_getUser_def db_gamesPlayed_def
      find_users_map)

lemma mem_countGame_counts:
  assumes "users ms uid = Some u"
  shows "mem_gamesPlayed (mem_countGame ms uid) uid = Some (gamesPlayed u + 1)"
  using assms by (simp add: mem_countGame_def mem_gamesPlayed_def)

lemma mem_recordScore_users: "users (mem_recordScore st uid gt v now) = users st"
  by (simp add: mem_recordScore_def Let_def split: prod.splits)

lemma mem_makeGuess_users: "users (fst (mem_makeGuess ms uid guess now)) = users ms"
  by (simp add: mem_makeGuess_def Let_def mem_recordScore_users split: option.splits)

lemma db_makeGuess_users: "tbl_users (fst (db_makeGuess ds uid guess now)) = tbl_users ds"
proof -
  have "tbl_users (fst r) = tbl_users ds \<Longrightarrow>
        tbl_users (fst (case r of
           (st1, Inl e) \<Rightarrow> (st1\<lparr>db_userGames := f st1\<rparr>, Inl e)
         | (st1, Inr u) \<Rightarrow> (st1\<lparr>db_userGames := h st1\<rparr>, Inr (k st1)))) = tbl_users ds"
    for r :: "unit db_result" and f h and k :: "DatabaseStorage \<Rightarrow> guess_response"
    by (cases r) (auto split: sum.splits)
  then show ?thesis
    by (simp add: db_makeGuess_def Let_def db_recordScore_users split: option.splits)
qed

text \<open>
  Claim C6. For a user that exists, starting a game (guessing, red light, type racer, and
  the bread game of DatabaseStorage) adds exactly one to the user's games-played counter,
  in both storage classes. Recording a score leaves the counter of every user as it is:
  \<open>MemStorage.recordScore\<close> does not touch \<open>users\<close>, and \<open>DatabaseStorage.recordScore\<close>
  throws while it builds the update of the counter, so that no update reaches the \<open>users\<close>
  table, whatever the game type. The same holds of \<open>makeGuess\<close>, which records the score
  of a win.
\<close>

theorem gamesPlayed_counter:
  assumes "users ms uid = Some u" and "db_getUser ds uid = Some u'"
  shows "mem_gamesPlayed (mem_startGuessingGame ms uid r) uid = Some (gamesPlayed u + 1) \<and>
         mem_gamesPlayed (mem_startRedLightGame ms uid) uid = Some (gamesPlayed u + 1) \<and>
         mem_gamesPlayed (fst (mem_startTypeRacerGame ms uid r)) uid = Some (gamesPlayed u + 1) \<and>
         db_gamesPlayed (fst (db_startGuessingGame ds uid r now)) uid = Some (gamesPlayed u' + 1) \<and>
         db_gamesPlayed (fst (db_startRedLightGame ds uid now)) uid = Some (gamesPlayed u' + 1) \<and>
         db_gamesPlayed (fst (db_startTypeRacerGame ds uid r now)) uid = Some (gamesPlayed u' + 1) \<and>
         db_gamesPlayed (fst (db_startBreadGame ds uid now)) uid = Some (gamesPlayed u' + 1) \<and>
         users (mem_recordScore ms uid gt v now) = users ms \<and>
         mem_gamesPlayed (mem_recordScore ms uid gt v now) uid = Some (gamesPlayed u) \<and>
         tbl_users (fst (db_recordScore ds uid gt v now)) = tbl_users ds \<and>
         db_gamesPlayed (fst (db_recordScore ds uid gt v now)) uid = Some (gamesPlayed u') \<and>
         users (fst (mem_makeGuess ms uid guess now)) = users ms \<and>
         tbl_users (fst (db_makeGuess ds uid guess now)) = tbl_users ds"
proof -
  let ?ms = "ms\<lparr>userGames := (userGames ms)(uid \<mapsto> newGameState uid r)\<rparr>"
  let ?ds = "ds\<lparr>db_userGames := (db_userGames ds)(uid \<mapsto> newGameState uid r)\<rparr>"
  have "users ?ms uid = Some u"
    using assms(1) by simp
  then have m1: "mem_gamesPlayed (mem_startGuessingGame ms uid r) uid = Some (gamesPlayed u + 1)"
    unfolding mem_startGuessingGame_def by (rule mem_countGame_counts)
  have m2: "mem_gamesPlayed (mem_countGame ms uid) uid = Some (gamesPlayed u + 1)"
    using assms(1) by (rule mem_countGame_counts)
  have m3: "mem_gamesPlayed (mem_recordScore ms uid gt v now) uid = Some (gamesPlayed u)"
    using assms(1) by (simp add: mem_gamesPlayed_def mem_recordScore_users)
  have "db_getUser ?ds uid = Some u'"
    using assms(2) by (simp add: db_getUser_def)
  then have d1: "db_gamesPlayed (fst (db_startGuessingGame ds uid r now)) uid
                   = Some (gamesPlayed u' + 1)"
    unfolding db_startGuessingGame_def by (simp add: db_countGame_counts)
  note d2 = db_countGame_counts [OF assms(2), of now]
  have d3: "db_gamesPlayed (fst (db_startTypeRacerGame ds uid r now)) uid
              = Some (gamesPlayed u' + 1)"
    using d2 by (cases "db_countGame ds uid now") (auto simp: db_startTypeRacerGame_def)
  have d4: "db_gamesPlayed (fst (db_recordScore ds uid gt v now)) uid = Some (gamesPlayed u')"
    using assms(2) by (simp add: db_gamesPlayed_def db_getUser_def db_recordScore_users)
  show ?thesis
    using m1 m2 m3 d1 d2 d3 d4
    by (simp add: mem_startRedLightGame_def mem_startTypeRacerGame_def
        db_startRedLightGame_def db_startBreadGame_def mem_recordScore_users
        db_recordScore_users mem_makeGuess_users db_makeGuess_users)
qed

theorem gamesPlayed_counter_witness:
  "mem_gamesPlayed mem42 1 = Some 0 \<and>
   mem_gamesPlayed (mem_startGuessingGame mem42 1 (1 / 2)) 1 = Some 1 \<and>
   mem_gamesPlayed (mem_recordScore mem42 1 ''redlight'' 12.3 t0) 1 = Some 0 \<and>
   db_gamesPlayed db42 1 = Some 0 \<and>
   db_gamesPlayed (fst (db_startGuessingGame db42 1 (1 / 2) t0)) 1 = Some 1 \<and>
   db_recordScore db42 1 ''redlight'' 12.3 t0 = (dbAfterRedlight, Inl TypeError) \<and>
   tbl_scores dbAfterRedlight = [\<lparr>userId = 1, gameId = 3, s_value = 12.3, createdAt = t0\<rparr>] \<and>
   db_gamesPlayed dbAfterRedlight 1 = Some 0 \<and>
   db_makeGuess db42 1 42 t0 = (db42Won, Inl TypeError) \<and>
   db_gamesPlayed db42Won 1 = Some 0"
proof -
  have h: "users mem42 1 = Some alice" "db_getUser db42 1 = Some alice"
    by (simp_all add: mem42_def db42_def db_getUser_def alice_def)
  have a: "gamesPlayed alice = 0"
    by (simp add: alice_def)
  have r: "db_recordScore db42 1 ''redlight'' 12.3 t0 = (dbAfterRedlight, Inl TypeError)"
    "tbl_scores dbAfterRedlight = [\<lparr>userId = 1, gameId = 3, s_value = 12.3, createdAt = t0\<rparr>]"
    by (simp_all add: db_recordScore_def db_sql_def db_getGameIdByType_def db_getUser_def db42_def
        seededGames_def alice_def dbAfterRedlight_def)
  have g: "db_makeGuess db42 1 42 t0 = (db42Won, Inl TypeError)"
    by (simp add: db_makeGuess_def db42_def db42Won_def session42_def session42Won_def
        Let_def db_recordScore_def db_sql_def db_getGameIdByType_def db_getUser_def
        seededGames_def alice_def)
  have t: "tbl_users db42Won = tbl_users db42"
    by (simp add: db42Won_def db42_def)
  show ?thesis
    using gamesPlayed_counter [OF h, of "1 / 2" t0 "''redlight''" "12.3" 42] a r g t h
    by (simp add: mem_gamesPlayed_def db_gamesPlayed_def db_getUser_def)
qed

lemma mem_recordScore_creates:
  assumes "find (\<lambda>g. g_type g = gt) (map snd (games st)) = None"
  shows "games (mem_recordScore st uid gt v now) =
           map_set (length (games st) + 1)
             \<lparr>g_id = length (games st) + 1, g_type = gt, g_name = getGameName gt,
              g_createdAt = now\<rparr>
             (games st)"
  using assms by (simp add: mem_recordScore_def mem_getOrCreateGame_def Let_def)

lemma getGameName_unknown:
  assumes "gt \<notin> {''guessing'', ''spinwheel'', ''redlight'', ''typeracer'', ''cse17''}"
  shows "getGameName gt = ''Unknown Game''"
  using assms by (simp add: getGameName_def)

lemma db_recordScore_missing:
  assumes "find (\<lambda>g. g_type g = gt) (tbl_games ds) = None"
  shows "db_recordScore ds uid gt v now =
           (ds, Inl (Error (''Game type '' @ gt @ '' not found'')))"
  using assms by (simp add: db_recordScore_def db_getGameIdByType_def)

text \<open>
  Claim C8, as amended. When no catalog entry has the game type of the score being
  recorded, \<open>MemStorage.recordScore\<close> adds an entry under the next id, named by
  \<open>getGameName\<close>, which names every type outside the five known ones "Unknown Game" and
  never fails. \<open>DatabaseStorage.recordScore\<close> instead throws "Game type ... not found"
  and leaves the database as it was, so it records nothing.
\<close>

theorem recordScore_without_catalog_entry:
  assumes "find (\<lambda>g. g_type g = gt) (map snd (games ms)) = None"
    and "find (\<lambda>g. g_type g = gt) (tbl_games ds) = None"
  shows "games (mem_recordScore ms uid gt v now) =
           map_set (length (games ms) + 1)
             \<lparr>g_id = length (games ms) + 1, g_type = gt, g_name = getGameName gt,
              g_createdAt = now\<rparr>
             (games ms) \<and>
         map_of (games (mem_recordScore ms uid gt v now)) (length (games ms) + 1) =
           Some \<lparr>g_id = length (games ms) + 1, g_type = gt, g_name = getGameName gt,
                 g_createdAt = now\<rparr> \<and>
         (gt \<notin> {''guessing'', ''spinwheel'', ''redlight'', ''typeracer'', ''cse17''}
            \<longrightarrow> getGameName gt = ''Unknown Game'') \<and>
         db_recordScore ds uid gt v now =
           (ds, Inl (Error (''Game type '' @ gt @ '' not found'')))"
  using assms
  by (simp add: mem_recordScore_creates db_recordScore_missing map_of_map_set getGameName_unknown)

theorem recordScore_without_catalog_entry_witness:
  "games (mem_recordScore mem42 1 ''chess'' 7 t0) =
     [(1, \<lparr>g_id = 1, g_type = ''chess'', g_name = ''Unknown Game'', g_createdAt = t0\<rparr>)] \<and>
   db_recordScore db42 1 ''chess'' 7 t0 = (db42, Inl (Error ''Game type chess not found'')) \<and>
   games (mem_recordScore mem42 1 ''redlight'' 7 t0) =
     [(1, \<lparr>g_id = 1, g_type = ''redlight'', g_name = ''Red Light, Green Light'',
           g_createdAt = t0\<rparr>)] \<and>
   db_recordScore dbNoRedlight 1 ''redlight'' 7 t0 =
     (dbNoRedlight, Inl (Error ''Game type redlight not found''))"
proof -
  have m: "find (\<lambda>g. g_type g = gt) (map snd (games mem42)) = None" for gt
    by (simp add: mem42_def)
  have d: "find (\<lambda>g. g_type g = ''chess'') (tbl_games db42) = None"
    by (simp add: db42_def seededGames_def)
  have d': "find (\<lambda>g. g_type g = ''redlight'') (tbl_games dbNoRedlight) = None"
    by (simp add: dbNoRedlight_def db42_def seededGames_def)
  have n: "getGameName ''redlight'' = ''Red Light, Green Light''"
    by (simp add: getGameName_def)
  show ?thesis
    using recordScore_without_catalog_entry [OF m d, of 1 7 t0]
      recordScore_without_catalog_entry [OF m d', of 1 7 t0] n
    by (simp add: mem42_def)
qed

text \<open>
  With no guessing row in the \<open>games\<close> table, \<open>DatabaseStorage.recordScore\<close> raises an
  error where \<open>MemStorage.recordScore\<close> creates the entry.
\<close>

theorem db_recordScore_throws_without_catalog_entry:
  "db_recordScore dbNoGuessing 1 ''guessing'' 2 t0 =
     (dbNoGuessing, Inl (Error ''Game type guessing not found'')) \<and>
   games (mem_recordScore mem42 1 ''guessing'' 2 t0) =
     [(1, \<lparr>g_id = 1, g_type = ''guessing'', g_name = ''Guessing Game'', g_createdAt = t0\<rparr>)]"
  by (simp add: db_recordScore_def db_getGameIdByType_def dbNoGuessing_def db42_def
      seededGames_def mem_recordScore_def mem_getOrCreateGame_def mem42_def getGameName_def Let_def)

section \<open>The spin wheel draw\<close>


lemma selectPrize_unmatched:
  assumes "\<forall>i<length ps. foldl (\<lambda>cum p. js_add cum (probability p)) cum (take (Suc i) ps) < random"
  shows "selectPrize random cum sel ps = sel"
  using assms
proof (induction ps arbitrary: cum)
  case Nil
  then show ?case by simp
next
  case (Cons p ps)
  from Cons.prems have "foldl (\<lambda>cum p. js_add cum (probability p)) cum (take (Suc 0) (p # ps)) < random"
    by blast
  then have n: "\<not> random \<le> js_add cum (probability p)"
    by simp
  have "\<forall>i<length ps. foldl (\<lambda>cum p. js_add cum (probability p)) (js_add cum (probability p))
                          (take (Suc i) ps) < random"
  proof (intro allI impI)
    fix i assume "i < length ps"
    then have "Suc i < length (p # ps)"
      by simp
    with Cons.prems
    have "foldl (\<lambda>cum p. js_add cum (probability p)) cum (take (Suc (Suc i)) (p # ps)) < random"
      by blast
    then show "foldl (\<lambda>cum p. js_add cum (probability p)) (js_add cum (probability p))
                 (take (Suc i) ps) < random"
      by simp
  qed
  then have "selectPrize random (js_add cum (probability p)) sel ps = sel"
    by (rule Cons.IH)
  with n show ?case by simp
qed

lemma length_prizes: "length prizes = 8"
  by (simp add: prizes_def)


text \<open>
  A draw in the interval from 0 to 1 is matched by the loop, at the latest by the last
  prize, whose accumulated weight is exactly 1. The loop leaves \<open>selectedPrize\<close> at its
  initial value \<open>prizes[0]\<close>, the prize of 100 points, only for a number above 1, which
  \<open>Math.random()\<close> does not return.
\<close>

lemma draw_is_matched:
  assumes "random \<le> 1"
  shows "\<exists>i<length prizes. random \<le> cumulativeWeight (Suc i)"
proof -
  have "7 < length prizes \<and> random \<le> cumulativeWeight (Suc 7)"
    using assms by (simp add: length_prizes cumulativeWeight_values)
  then show ?thesis
    by blast
qed

lemma selectedPrize_above_one:
  assumes "1 < random"
  shows "selectedPrize random = prizes ! 0 \<and> p_label (selectedPrize random) = ''100 Points''"
  using assms by (simp add: selectedPrize_def prizes_def weight_values sum_steps)

lemma selectedPrize_examples:
  "selectedPrize (1 / 8) = prizes ! 0" "p_label (prizes ! 0) = ''100 Points''"
  "p_value (prizes ! 0) = 100"
  "selectedPrize (1 / 2) = prizes ! 4" "selectedPrize (5 / 8) = prizes ! 4"
  "p_label (prizes ! 4) = ''Try Again''" "p_value (prizes ! 4) = 0"
  by (simp_all add: selectedPrize_def prizes_def weight_values sum_steps)

lemma spinResult_examples:
  "spinResult (1 / 8) (1 / 2) = \<lparr>sr_prize = ''100 Points'', sr_value = 100, degrees = 1818\<rparr>"
  "spinResult (1 / 2) (1 / 2) = \<lparr>sr_prize = ''Try Again'', sr_value = 0, degrees = 1998\<rparr>"
  "spinResult (5 / 8) (1 / 2) = \<lparr>sr_prize = ''Try Again'', sr_value = 0, degrees = 1998\<rparr>"
  by (simp_all add: spinResult_def Let_def selectedPrize_examples length_prizes)
     (simp_all add: prizes_def weight_values degrees_steps)

lemma mem_spinWheel_result: "snd (mem_spinWheel ms uid r r2 now) = spinResult r r2"
  by (simp add: mem_spinWheel_def Let_def)

lemma db_spinWheel_try_again:
  assumes "\<not> 0 < p_value (selectedPrize r)"
  shows "db_spinWheel ds uid r r2 now = (ds, Inr (spinResult r r2))"
  using assms by (simp add: db_spinWheel_def Let_def)

text \<open>
  On a draw of a prize with a value, \<open>DatabaseStorage.spinWheel\<close> awaits \<open>recordScore\<close>,
  which inserts the score of the selected prize and throws.
\<close>

lemma db_spinWheel_prize:
  assumes "0 < p_value (selectedPrize r)"
    and "db_getGameIdByType ds ''spinwheel'' = Inr gid" and "db_getUser ds uid = Some u"
  shows "db_spinWheel ds uid r r2 now =
     (ds\<lparr>tbl_scores := tbl_scores ds @
            [\<lparr>userId = uid, gameId = gid, s_value = p_value (selectedPrize r),
              createdAt = now\<rparr>]\<rparr>,
      Inl TypeError)"
  using assms(1) by (simp add: db_spinWheel_def Let_def db_recordScore_inserts [OF assms(2,3)])



section \<open>The spin wheel in the two storage classes\<close>

lemma mem_countGame_scores: "scores (mem_countGame ms uid) = scores ms"
  by (simp add: mem_countGame_def split: option.splits)

lemma mem_spinWheel_counts:
  assumes "users ms uid = Some u"
  shows "mem_gamesPlayed (fst (mem_spinWheel ms uid r r2 now)) uid = Some (gamesPlayed u + 1)"
proof -
  have "users (if 0 < p_value (selectedPrize r)
               then mem_recordScore ms uid ''spinwheel'' (p_value (selectedPrize r)) now
               else ms) uid = Some u"
    using assms by (simp add: mem_recordScore_users)
  then show ?thesis
    by (simp add: mem_spinWheel_def Let_def mem_countGame_counts)
qed

lemma mem_spinWheel_scores:
  "scores (fst (mem_spinWheel ms uid r r2 now)) =
     (if 0 < p_value (selectedPrize r)
      then scores (mem_recordScore ms uid ''spinwheel'' (p_value (selectedPrize r)) now)
      else scores ms)"
  by (simp add: mem_spinWheel_def Let_def mem_countGame_scores)

text \<open>
  Claim C10, as amended. Take a user with the same games-played count in both storage
  classes, a \<open>games\<close> table with a spinwheel row, and the same two random draws. Both
  \<open>spinWheel\<close> select the same prize. MemStorage returns the result for it and adds one
  to the counter on every spin. On "Try Again" DatabaseStorage returns the same result,
  neither ledger changes, and DatabaseStorage leaves the counter as it was. When the prize
  has a value, each ledger grows by one score of that value for the user.
\<close>

theorem spinWheel_backends:
  assumes "users ms uid = Some u" and "db_getUser ds uid = Some u'"
    and "gamesPlayed u' = gamesPlayed u"
    and "db_getGameIdByType ds ''spinwheel'' = Inr gid"
  shows "snd (mem_spinWheel ms uid r r2 now) = spinResult r r2 \<and>
         mem_gamesPlayed (fst (mem_spinWheel ms uid r r2 now)) uid = Some (gamesPlayed u + 1) \<and>
         (\<not> 0 < p_value (selectedPrize r) \<longrightarrow>
            snd (db_spinWheel ds uid r r2 now) = Inr (snd (mem_spinWheel ms uid r r2 now)) \<and>
            scores (fst (mem_spinWheel ms uid r r2 now)) = scores ms \<and>
            tbl_scores (fst (db_spinWheel ds uid r r2 now)) = tbl_scores ds \<and>
            db_gamesPlayed (fst (db_spinWheel ds uid r r2 now)) uid = Some (gamesPlayed u)) \<and>
         (0 < p_value (selectedPrize r) \<longrightarrow>
            map_of (scores (fst (mem_spinWheel ms uid r r2 now))) uid =
              Some ((case map_of (scores ms) uid of None \<Rightarrow> [] | Some ss \<Rightarrow> ss) @
                    [\<lparr>userId = uid, gameId = fst (mem_getOrCreateGame ms ''spinwheel'' now),
                      s_value = p_value (selectedPrize r), createdAt = now\<rparr>]) \<and>
            tbl_scores (fst (db_spinWheel ds uid r r2 now)) =
              tbl_scores ds @ [\<lparr>userId = uid, gameId = gid,
                                s_value = p_value (selectedPrize r), createdAt = now\<rparr>])"
proof (cases "0 < p_value (selectedPrize r)")
  case True
  note d = db_spinWheel_prize [OF True assms(4,2), of r2 now]
  show ?thesis
    using True assms(1)
    by (simp add: d mem_spinWheel_result mem_spinWheel_counts mem_spinWheel_scores
        mem_recordScore_scores)
next
  case False
  note d = db_spinWheel_try_again [OF False, of ds uid r2 now]
  show ?thesis
    using False assms(1,2,3)
    by (simp add: d mem_spinWheel_result mem_spinWheel_counts mem_spinWheel_scores
        db_gamesPlayed_def)
qed

theorem spinWheel_backends_witness:
  "snd (mem_spinWheel mem42 1 (5 / 8) (1 / 2) t0) =
     \<lparr>sr_prize = ''Try Again'', sr_value = 0, degrees = 1998\<rparr> \<and>
   snd (db_spinWheel db42 1 (5 / 8) (1 / 2) t0) =
     Inr \<lparr>sr_prize = ''Try Again'', sr_value = 0, degrees = 1998\<rparr> \<and>
   scores (fst (mem_spinWheel mem42 1 (5 / 8) (1 / 2) t0)) = [] \<and>
   tbl_scores (fst (db_spinWheel db42 1 (5 / 8) (1 / 2) t0)) = [] \<and>
   mem_gamesPlayed (fst (mem_spinWheel mem42 1 (5 / 8) (1 / 2) t0)) 1 = Some 1 \<and>
   db_gamesPlayed (fst (db_spinWheel db42 1 (5 / 8) (1 / 2) t0)) 1 = Some 0 \<and>
   snd (mem_spinWheel mem42 1 (1 / 8) (1 / 2) t0) =
     \<lparr>sr_prize = ''100 Points'', sr_value = 100, degrees = 1818\<rparr> \<and>
   map_of (scores (fst (mem_spinWheel mem42 1 (1 / 8) (1 / 2) t0))) 1 =
     Some [\<lparr>userId = 1, gameId = 1, s_value = 100, createdAt = t0\<rparr>] \<and>
   tbl_scores (fst (db_spinWheel db42 1 (1 / 8) (1 / 2) t0)) =
     [\<lparr>userId = 1, gameId = 2, s_value = 100, createdAt = t0\<rparr>] \<and>
   mem_gamesPlayed (fst (mem_spinWheel mem42 1 (1 / 8) (1 / 2) t0)) 1 = Some 1"
proof -
  have h: "users mem42 1 = Some alice" "db_getUser db42 1 = Some alice"
    "gamesPlayed alice = gamesPlayed alice" "db_getGameIdByType db42 ''spinwheel'' = Inr 2"
    by (simp_all add: mem42_def db42_def db_getUser_def db_getGameIdByType_def seededGames_def
        alice_def)
  have g: "fst (mem_getOrCreateGame mem42 ''spinwheel'' t0) = 1" "gamesPlayed alice = 0"
    "scores mem42 = []" "tbl_scores db42 = []"
    by (simp_all add: mem_getOrCreateGame_def mem42_def db42_def alice_def Let_def)
  show ?thesis
    using spinWheel_backends [OF h, of "5 / 8" "1 / 2" t0]
      spinWheel_backends [OF h, of "1 / 8" "1 / 2" t0] g
    by (simp add: selectedPrize_examples spinResult_examples)
qed

text \<open>
  The draw 0.625 selects "Try Again": from equal counters and with the same result,
  MemStorage counts the spin and DatabaseStorage does not.
\<close>

theorem spinWheel_try_again_counter_differs:
  "mem_gamesPlayed mem42 1 = Some 0 \<and> db_gamesPlayed db42 1 = Some 0 \<and>
   snd (mem_spinWheel mem42 1 (5 / 8) (1 / 2) t0) =
     \<lparr>sr_prize = ''Try Again'', sr_value = 0, degrees = 1998\<rparr> \<and>
   snd (db_spinWheel db42 1 (5 / 8) (1 / 2) t0) =
     Inr \<lparr>sr_prize = ''Try Again'', sr_value = 0, degrees = 1998\<rparr> \<and>
   mem_gamesPlayed (fst (mem_spinWheel mem42 1 (5 / 8) (1 / 2) t0)) 1 = Some 1 \<and>
   db_gamesPlayed (fst (db_spinWheel db42 1 (5 / 8) (1 / 2) t0)) 1 = Some 0"
  by (simp add: mem_spinWheel_def db_spinWheel_def Let_def selectedPrize_examples
      spinResult_examples mem_countGame_def mem_gamesPlayed_def db_gamesPlayed_def mem42_def
      db42_def db_getUser_def alice_def)

section \<open>Winner announcements\<close>

lemma db_submitTypeRacerScore_no_isHighScore:
  assumes "db_submitTypeRacerScore st uid w acc now = (st1, Inr result)"
  shows "getProp result ''isHighScore'' = None"
  using assms
  by (auto simp: db_submitTypeRacerScore_def getProp_def split: sum.splits prod.splits)

lemma db_submitBreadGameScore_no_isHighScore:
  assumes "db_submitBreadGameScore st uid sc now = (st1, Inr result)"
  shows "getProp result ''isHighScore'' = None"
  using assms
  by (auto simp: db_submitBreadGameScore_def getProp_def split: sum.splits prod.splits)

lemma mem_submitTypeRacerScore_no_isHighScore:
  "getProp (snd (mem_submitTypeRacerScore st uid w acc now)) ''isHighScore'' = None"
  by (simp add: mem_submitTypeRacerScore_def getProp_def Let_def)

text \<open>
  No call of either route sends a message, whatever the submission, the earlier scores and
  the outcome of the storage operation.
\<close>

lemma typeracerScoreRoute_sends_nothing:
  "snd (snd (typeracerScoreRoute str st cs u w acc now)) = []"
proof (cases "db_submitTypeRacerScore st (u_id u) w acc now")
  case (Pair st1 res)
  then show ?thesis
    by (cases res)
       (simp_all add: typeracerScoreRoute_def db_submitTypeRacerScore_no_isHighScore)
qed

lemma breadScoreRoute_sends_nothing:
  "snd (snd (breadScoreRoute str st cs u sc now)) = []"
proof (cases "db_submitBreadGameScore st (u_id u) sc now")
  case (Pair st1 res)
  then show ?thesis
    by (cases res)
       (simp_all add: breadScoreRoute_def db_submitBreadGameScore_no_isHighScore)
qed

text \<open>
  With the DatabaseStorage the submissions do not return a result at all: they await
  \<open>recordScore\<close> first, which throws, and each route answers the exception with 400.
\<close>

lemma db_submit_throws:
  "\<exists>e. snd (db_submitTypeRacerScore st uid w acc now) = Inl e"
  "\<exists>e. snd (db_submitBreadGameScore st uid sc now) = Inl e"
proof -
  show "\<exists>e. snd (db_submitTypeRacerScore st uid w acc now) = Inl e"
    using db_recordScore_throws [of st uid "''typeracer''" w now]
    by (cases "db_recordScore st uid ''typeracer'' w now")
       (auto simp: db_submitTypeRacerScore_def)
  show "\<exists>e. snd (db_submitBreadGameScore st uid sc now) = Inl e"
    using db_recordScore_throws [of st uid "''cse17''" sc now]
    by (cases "db_recordScore st uid ''cse17'' sc now")
       (auto simp: db_submitBreadGameScore_def)
qed

lemma score_routes_answer_400:
  "fst (snd (typeracerScoreRoute str st cs u w acc now)) = Status 400 ''Invalid score submission''"
  "fst (snd (breadScoreRoute str st cs u sc now)) = Status 400 ''Invalid score submission''"
proof -
  show "fst (snd (typeracerScoreRoute str st cs u w acc now)) =
          Status 400 ''Invalid score submission''"
    using db_submit_throws(1) [of st "u_id u" w acc now]
    by (cases "db_submitTypeRacerScore st (u_id u) w acc now")
       (auto simp: typeracerScoreRoute_def)
  show "fst (snd (breadScoreRoute str st cs u sc now)) = Status 400 ''Invalid score submission''"
    using db_submit_throws(2) [of st "u_id u" sc now]
    by (cases "db_submitBreadGameScore st (u_id u) sc now")
       (auto simp: breadScoreRoute_def)
qed

lemma typing_submit:
  "db_submitTypeRacerScore dbTyping (u_id alice) 80 95 t1 = (dbTypingAfter, Inl TypeError)"
  by (simp add: db_submitTypeRacerScore_def db_recordScore_def db_sql_def db_getGameIdByType_def
      db_getUser_def dbTyping_def dbTypingAfter_def db42_def seededGames_def alice_def)

lemma bread_submit:
  "db_submitBreadGameScore dbBread (u_id alice) 200 t1 = (dbBreadAfter, Inl TypeError)"
  by (simp add: db_submitBreadGameScore_def db_recordScore_def db_sql_def db_getGameIdByType_def
      db_getUser_def dbBread_def dbBreadAfter_def db42_def seededGames_def alice_def)

text \<open>
  What the storage operations would hand to the routes after the new scores are in the
  tables: the leaderboard with alice's 80 WPM and the statistics with the high score 200.
  Neither has a property \<open>isHighScore\<close>.
\<close>

lemma boards_after_submit:
  "db_getTypeRacerLeaderboard dbTypingAfter =
     Inr [\<lparr>tr_rank = 1, tr_player = ''alice'', wpm = 80, accuracy = 95\<rparr>]"
  "db_getBreadGameStats dbBreadAfter (u_id alice) =
     Inr \<lparr>bs_gamesPlayed = 2, highScore = 200, averageScore = 150\<rparr>"
proof -
  show "db_getTypeRacerLeaderboard dbTypingAfter =
     Inr [\<lparr>tr_rank = 1, tr_player = ''alice'', wpm = 80, accuracy = 95\<rparr>]"
    by (simp add: db_getTypeRacerLeaderboard_def db_getGameIdByType_def dbTyping_def
        dbTypingAfter_def db42_def seededGames_def alice_def db_typeRacerScores_def js_sort_def
        groupBest_def js_round_examples Let_def)
  have a: "js_add 0 100 = 100" "js_add 100 200 = 300" "js_div 300 2 = 150"
    by (simp_all add: number_eval)
  show "db_getBreadGameStats dbBreadAfter (u_id alice) =
     Inr \<lparr>bs_gamesPlayed = 2, highScore = 200, averageScore = 150\<rparr>"
    by (simp add: db_getBreadGameStats_def db_getGameIdByType_def dbBread_def
        dbBreadAfter_def db42_def seededGames_def alice_def js_round_examples a Let_def)
qed

lemma broadcastLeaderboard_reaches_open_clients:
  "map fst (broadcastLeaderboard str st cs gameType w) = map client_id (filter isOpen cs) \<and>
   list_all (\<lambda>m. m_winner (snd m) = w) (broadcastLeaderboard str st cs gameType w)"
  by (simp add: broadcastLeaderboard_def Let_def list_all_iff)

text \<open>
  Claim C1 at a failing input. Alice's best type racer score is 50 and she submits 80 WPM;
  her best bread game score is 100 and she submits 200. Each route inserts the score,
  answers 400 because \<open>recordScore\<close> throws after the insert, and sends nothing to the two
  connected viewers. The broadcast is tied to a property \<open>isHighScore\<close> of the result
  of the submission, which no result object has, neither of DatabaseStorage nor of
  MemStorage, so that the condition reads \<open>undefined\<close> also for a submission that returns
  (\<open>typeracerScoreRoute_sends_nothing\<close> and \<open>breadScoreRoute_sends_nothing\<close>: no
  submission is ever announced).
\<close>

theorem new_best_score_is_not_announced:
  "typeracerScoreRoute str dbTyping viewers alice 80 95 t1 =
     (dbTypingAfter, Status 400 ''Invalid score submission'', []) \<and>
   breadScoreRoute str dbBread viewers alice 200 t1 =
     (dbBreadAfter, Status 400 ''Invalid score submission'', []) \<and>
   getProp (snd (mem_submitTypeRacerScore mem42 1 80 95 t1)) ''isHighScore'' = None"
  by (simp add: typeracerScoreRoute_def breadScoreRoute_def typing_submit bread_submit
      mem_submitTypeRacerScore_no_isHighScore)

section \<open>The leaderboard order\<close>

lemma digits_small: "n < 10 \<Longrightarrow> digits n = [''0123456789'' ! n]"
  by (simp add: digits.simps)

lemma toFixed1_examples:
  "toFixed1 str (-5) = ''-5.0''" "toFixed1 str 3 = ''3.0''"
  by (simp_all add: toFixed1_def Let_def digits_small)

lemma parse_examples:
  "parseFloat (stripNonNumeric ''-5.0s'') = Some 5"
  "parseFloat (stripNonNumeric ''3.0s'') = Some 3"
  by (simp_all add: parseFloat_def stripNonNumeric_def isDigit_def digitsValue_def number_eval)

lemma lb_assignRanks_ranks:
  "map lb_rank (lb_assignRanks k es) = map (\<lambda>i. k + int i) [0..<length es]"
proof (induction es arbitrary: k)
  case Nil
  then show ?case by simp
next
  case (Cons e es)
  have "[0..<Suc (length es)] = 0 # map Suc [0..<length es]"
    by (simp add: upt_conv_Cons map_Suc_upt del: upt_Suc)
  then show ?case
    by (simp add: Cons.IH add.assoc del: upt_Suc)
qed

lemma length_lb_assignRanks: "length (lb_assignRanks k es) = length es"
  by (induction es arbitrary: k) auto

lemma getLeaderboard_ranks:
  "map lb_rank (mem_getLeaderboard str ms gameType) =
     map (\<lambda>i. 1 + int i) [0..<length (mem_getLeaderboard str ms gameType)]"
  "map lb_rank (db_getLeaderboard str ds gameType) =
     map (\<lambda>i. 1 + int i) [0..<length (db_getLeaderboard str ds gameType)]"
  unfolding mem_getLeaderboard_def db_getLeaderboard_def Let_def
  by (simp_all only: lb_assignRanks_ranks length_lb_assignRanks)

text \<open>
  A score that the conversion to text writes with an exponent is misplaced as well: with
  \<open>1e+21\<close> for ten to the power 21, as JavaScript writes it, the comparator reads 121.
\<close>

lemma parse_exponent_examples:
  "parseFloat (stripNonNumeric ''1e+21 pts'') = Some 121"
  "parseFloat (stripNonNumeric ''200 pts'') = Some 200"
  by (simp_all add: parseFloat_def stripNonNumeric_def isDigit_def digitsValue_def number_eval)

lemma cse17_leaderboard_ignores_exponent:
  assumes "str (10 ^ 21) = ''1e+21''" and "str 200 = ''200''"
  shows "map lb_score (mem_getLeaderboard str memHuge ''cse17'') = [''200 pts'', ''1e+21 pts''] \<and>
         map lb_score (db_getLeaderboard str dbHuge ''cse17'') = [''200 pts'', ''1e+21 pts'']"
proof -
  let ?a = "\<lparr>lb_rank = 0, lb_player = ''alice'', lb_game = ''CSE-17 Bread Game'',
             lb_gameType = ''cse17'', lb_score = ''1e+21 pts'', lb_date = ''2025-01-01''\<rparr>"
  let ?b = "\<lparr>lb_rank = 0, lb_player = ''alice'', lb_game = ''CSE-17 Bread Game'',
             lb_gameType = ''cse17'', lb_score = ''200 pts'', lb_date = ''2025-01-02''\<rparr>"
  have m: "concat (map (mem_userEntries str memHuge ''cse17'') (scores memHuge)) = [?a, ?b]"
    using assms
    by (simp add: mem_userEntries_def memHuge_def breadGame_def makeEntry_def
        formatScore_def isoDate_def t0_def t1_def alice_def)
  have d: "concat (map (\<lambda>su. case map_of (db_gameMap dbHuge) (gameId (fst su)) of
                                 None \<Rightarrow> []
                               | Some g \<Rightarrow> [makeEntry str (username (snd su)) g (fst su)])
                        (db_scoreResults dbHuge ''cse17'')) = [?a, ?b]"
    using assms
    by (simp add: db_scoreResults_def db_gameMap_def dbHuge_def seededGames_def makeEntry_def
        formatScore_def isoDate_def t0_def t1_def alice_def)
  have c: "compareEntries ?a ?b = 79"
    by (simp add: compareEntries_def parse_exponent_examples js_minus_def Let_def)
  show ?thesis
    by (simp add: mem_getLeaderboard_def db_getLeaderboard_def Let_def m d js_sort_def c)
qed

text \<open>
  Claim C5 at a failing input. The red light ledger holds the times -5 and 3 (the route
  takes \<open>parseFloat\<close> of any text). The leaderboard for "redlight" ranks "3.0s" first and
  "-5.0s" second: the comparator reads the numbers back from the formatted scores after
  deleting every character but digits and points, the minus sign among them, so it
  compares 3 with 5. The ranks themselves are 1..N (\<open>getLeaderboard_ranks\<close>).
\<close>

theorem redlight_leaderboard_ignores_sign:
  "mem_getLeaderboard str memRedlight ''redlight'' =
     [\<lparr>lb_rank = 1, lb_player = ''alice'', lb_game = ''Red Light, Green Light'',
       lb_gameType = ''redlight'', lb_score = ''3.0s'', lb_date = ''2025-01-02''\<rparr>,
      \<lparr>lb_rank = 2, lb_player = ''alice'', lb_game = ''Red Light, Green Light'',
       lb_gameType = ''redlight'', lb_score = ''-5.0s'', lb_date = ''2025-01-01''\<rparr>] \<and>
   db_getLeaderboard str dbRedlight ''redlight'' =
     [\<lparr>lb_rank = 1, lb_player = ''alice'', lb_game = ''Red Light, Green Light'',
       lb_gameType = ''redlight'', lb_score = ''3.0s'', lb_date = ''2025-01-02''\<rparr>,
      \<lparr>lb_rank = 2, lb_player = ''alice'', lb_game = ''Red Light, Green Light'',
       lb_gameType = ''redlight'', lb_score = ''-5.0s'', lb_date = ''2025-01-01''\<rparr>]"
proof -
  have m: "concat (map (mem_userEntries str memRedlight ''redlight'') (scores memRedlight)) =
     [\<lparr>lb_rank = 0, lb_player = ''alice'', lb_game = ''Red Light, Green Light'',
       lb_gameType = ''redlight'', lb_score = ''-5.0s'', lb_date = ''2025-01-01''\<rparr>,
      \<lparr>lb_rank = 0, lb_player = ''alice'', lb_game = ''Red Light, Green Light'',
       lb_gameType = ''redlight'', lb_score = ''3.0s'', lb_date = ''2025-01-02''\<rparr>]"
    by (simp add: mem_userEntries_def memRedlight_def redlightGame_def makeEntry_def
        formatScore_def toFixed1_examples isoDate_def t0_def t1_def alice_def)
  have d: "concat (map (\<lambda>su. case map_of (db_gameMap dbRedlight) (gameId (fst su)) of
                                 None \<Rightarrow> []
                               | Some g \<Rightarrow> [makeEntry str (username (snd su)) g (fst su)])
                        (db_scoreResults dbRedlight ''redlight'')) =
     [\<lparr>lb_rank = 0, lb_player = ''alice'', lb_game = ''Red Light, Green Light'',
       lb_gameType = ''redlight'', lb_score = ''-5.0s'', lb_date = ''2025-01-01''\<rparr>,
      \<lparr>lb_rank = 0, lb_player = ''alice'', lb_game = ''Red Light, Green Light'',
       lb_gameType = ''redlight'', lb_score = ''3.0s'', lb_date = ''2025-01-02''\<rparr>]"
    by (simp add: db_scoreResults_def db_gameMap_def dbRedlight_def seededGames_def makeEntry_def
        formatScore_def toFixed1_examples isoDate_def t0_def t1_def alice_def)
  have c: "compareEntries
     \<lparr>lb_rank = 0, lb_player = ''alice'', lb_game = ''Red Light, Green Light'',
      lb_gameType = ''redlight'', lb_score = ''-5.0s'', lb_date = ''2025-01-01''\<rparr>
     \<lparr>lb_rank = 0, lb_player = ''alice'', lb_game = ''Red Light, Green Light'',
      lb_gameType = ''redlight'', lb_score = ''3.0s'', lb_date = ''2025-01-02''\<rparr> = 2"
    by (simp add: compareEntries_def parse_examples js_minus_def Let_def)
  show ?thesis
    by (simp add: mem_getLeaderboard_def db_getLeaderboard_def Let_def m d js_sort_def c)
qed

section \<open>The type racer leaderboard\<close>

lemma insert_cmp_insort_key:
  "insert_cmp (\<lambda>a b. f b - f a) x ys = insort_key (\<lambda>x. - f x) x ys"
  by (induction ys) auto

lemma js_sort_descending: "js_sort (\<lambda>a b. f b - f a) xs = sort_key (\<lambda>x. - f x) xs"
  by (induction xs) (simp_all add: js_sort_def insert_cmp_insort_key)

lemma js_sort_ascending: "js_sort (\<lambda>a b. f a - f b) xs = sort_key f xs"
  using js_sort_descending [of "\<lambda>x. - f x" xs] by simp

lemma sorted_descending:
  "sorted_wrt (\<lambda>a b. f b \<le> f a) (js_sort (\<lambda>a b. f b - f a) xs)"
proof -
  have "sorted (map (\<lambda>x. - f x) (sort_key (\<lambda>x. - f x) xs))"
    by (rule sorted_sort_key)
  then show ?thesis
    by (simp add: js_sort_descending sorted_map)
qed

lemma mset_js_sort_descending: "mset (js_sort (\<lambda>a b. f b - f a) xs) = mset xs"
  by (simp add: js_sort_descending)

lemma tr_assignRanks_ranks:
  "map tr_rank (tr_assignRanks k es) = map (\<lambda>i. k + int i) [0..<length es]"
proof (induction es arbitrary: k)
  case Nil
  then show ?case by simp
next
  case (Cons e es)
  have "[0..<Suc (length es)] = 0 # map Suc [0..<length es]"
    by (simp add: upt_conv_Cons map_Suc_upt del: upt_Suc)
  then show ?case
    by (simp add: Cons.IH add.assoc del: upt_Suc)
qed

lemma length_tr_assignRanks: "length (tr_assignRanks k es) = length es"
  by (induction es arbitrary: k) auto

lemma tr_assignRanks_pairs: "boardPairs (tr_assignRanks k es) = boardPairs es"
  by (induction es arbitrary: k) (auto simp: boardPairs_def)

lemma tr_assignRanks_wpm: "map wpm (tr_assignRanks k es) = map wpm es"
  by (induction es arbitrary: k) auto

lemma tr_assignRanks_Nil: "tr_assignRanks k es = [] \<longleftrightarrow> es = []"
  by (cases es) auto

lemma foldl_higher_fold:
  "s_value (foldl higher b xs) = fold max (map s_value xs) (s_value b)"
  by (induction xs arbitrary: b) (auto simp: higher_def max_def)

lemma foldl_higher: "s_value (foldl higher b xs) = Max (set (s_value b # map s_value xs))"
  by (simp only: foldl_higher_fold Max.set_eq_fold)

lemma boardPairs_entryOf: "boardPairs (map entryOf ps) = map bestWpm ps"
  by (simp add: boardPairs_def entryOf_def bestWpm_def)

lemma mem_typeRacerEntry_player:
  "mem_typeRacerEntry st kv =
     map entryOf (case users st (fst kv) of
                    None \<Rightarrow> []
                  | Some u \<Rightarrow> if mem_typeRacerValues st (snd kv) = [] then []
                              else [(u, mem_typeRacerValues st (snd kv))])"
proof (cases "users st (fst kv)")
  case None
  then show ?thesis by (simp add: mem_typeRacerEntry_def)
next
  case (Some u)
  show ?thesis
  proof (cases "filter (mem_scoreHasType st ''typeracer'') (snd kv)")
    case Nil
    with Some show ?thesis
      by (simp add: mem_typeRacerEntry_def mem_typeRacerValues_def)
  next
    case (Cons t ts)
    have "s_value (foldl higher t (t # ts)) = Max (set (map s_value (t # ts)))"
      unfolding foldl_higher by simp
    with Some Cons show ?thesis
      by (simp add: mem_typeRacerEntry_def mem_typeRacerValues_def entryOf_def)
  qed
qed

lemma mem_allScores:
  "concat (map (mem_typeRacerEntry st) (scores st)) = map entryOf (mem_typeRacerPlayers st)"
proof -
  have "map (mem_typeRacerEntry st) (scores st) =
        map (\<lambda>kv. map entryOf (case users st (fst kv) of
                    None \<Rightarrow> []
                  | Some u \<Rightarrow> if mem_typeRacerValues st (snd kv) = [] then []
                              else [(u, mem_typeRacerValues st (snd kv))])) (scores st)"
    by (intro map_cong refl mem_typeRacerEntry_player)
  then show ?thesis
    unfolding mem_typeRacerPlayers_def map_concat map_map o_def by (rule arg_cong)
qed

lemma sorted_wrt_wpm:
  assumes "sorted_wrt (\<lambda>a b. real_of_int (wpm b) \<le> real_of_int (wpm a)) es"
  shows "sorted_wrt (\<lambda>a b. b \<le> a) (map wpm es)"
  using assms by (simp add: sorted_wrt_map)

lemma sampleLeaderboard_sorted:
  "sorted_wrt (\<lambda>a b. b \<le> a) (map wpm sampleLeaderboard) \<and>
   map tr_rank sampleLeaderboard = map (\<lambda>i. 1 + int i) [0..<length sampleLeaderboard]"
  by (simp add: sampleLeaderboard_def upt_rec)

lemma mem_board:
  "mem_getTypeRacerLeaderboard st =
     (if mem_typeRacerPlayers st = [] then sampleLeaderboard
      else tr_assignRanks 1 (js_sort (\<lambda>a b. of_int (wpm b) - of_int (wpm a))
                               (map entryOf (mem_typeRacerPlayers st))))"
proof -
  have "length (tr_assignRanks 1 (js_sort (\<lambda>a b. real_of_int (wpm b) - real_of_int (wpm a))
                               (map entryOf (mem_typeRacerPlayers st)))) =
        length (mem_typeRacerPlayers st)"
    by (simp add: length_tr_assignRanks js_sort_descending)
  then have "tr_assignRanks 1 (js_sort (\<lambda>a b. real_of_int (wpm b) - real_of_int (wpm a))
                               (map entryOf (mem_typeRacerPlayers st))) = [] \<longleftrightarrow>
        mem_typeRacerPlayers st = []"
    by (metis length_0_conv)
  then show ?thesis
    by (simp add: mem_getTypeRacerLeaderboard_def Let_def mem_allScores)
qed

lemma mem_leaderboard_best:
  "(mem_typeRacerPlayers ms \<noteq> [] \<longrightarrow>
      mset (boardPairs (mem_getTypeRacerLeaderboard ms)) = mset (map bestWpm (mem_typeRacerPlayers ms))) \<and>
   (mem_typeRacerPlayers ms = [] \<longrightarrow> mem_getTypeRacerLeaderboard ms = sampleLeaderboard) \<and>
   sorted_wrt (\<lambda>a b. b \<le> a) (map wpm (mem_getTypeRacerLeaderboard ms)) \<and>
   map tr_rank (mem_getTypeRacerLeaderboard ms) =
     map (\<lambda>i. 1 + int i) [0..<length (mem_getTypeRacerLeaderboard ms)]"
proof (cases "mem_typeRacerPlayers ms = []")
  case True
  then show ?thesis
    using sampleLeaderboard_sorted by (simp add: mem_board)
next
  case False
  let ?sorted = "js_sort (\<lambda>a b. real_of_int (wpm b) - real_of_int (wpm a))
                   (map entryOf (mem_typeRacerPlayers ms))"
  have b: "mem_getTypeRacerLeaderboard ms = tr_assignRanks 1 ?sorted"
    using False by (simp add: mem_board)
  have "mset ?sorted = mset (map entryOf (mem_typeRacerPlayers ms))"
    by (rule mset_js_sort_descending)
  then have "mset (boardPairs ?sorted) = mset (boardPairs (map entryOf (mem_typeRacerPlayers ms)))"
    unfolding boardPairs_def by (metis mset_map)
  then have p: "mset (boardPairs (tr_assignRanks 1 ?sorted)) =
                  mset (map bestWpm (mem_typeRacerPlayers ms))"
    by (simp add: tr_assignRanks_pairs boardPairs_entryOf)
  have s: "sorted_wrt (\<lambda>a b. b \<le> a) (map wpm (tr_assignRanks 1 ?sorted))"
    unfolding tr_assignRanks_wpm by (rule sorted_wrt_wpm) (rule sorted_descending)
  have r: "map tr_rank (tr_assignRanks 1 ?sorted) =
             map (\<lambda>i. 1 + int i) [0..<length (tr_assignRanks 1 ?sorted)]"
    by (simp only: tr_assignRanks_ranks length_tr_assignRanks)
  show ?thesis
    using False p s r by (simp add: b)
qed

lemma set_map_set_keys: "fst ` set (map_set k v m) = insert k (fst ` set m)"
  by (simp add: dom_map_of_conv_image_fst [symmetric] map_of_map_set)

lemma distinct_map_set:
  "distinct (map fst m) \<Longrightarrow> distinct (map fst (map_set k v m))"
proof (induction m)
  case Nil
  then show ?case by simp
next
  case (Cons kv m)
  then show ?case
    by (cases kv) (auto simp: set_map_set_keys)
qed

lemma map_of_groupBest:
  "map_of (groupBest m row) k =
     (if k = row_userId row then better (map_of m k) (row_value row) else map_of m k)"
  by (auto simp: groupBest_def better_def map_of_map_set max_def split: option.splits)

lemma keys_groupBest: "fst ` set (groupBest m row) = insert (row_userId row) (fst ` set m)"
proof (cases "map_of m (row_userId row)")
  case None
  then show ?thesis by (simp add: groupBest_def set_map_set_keys)
next
  case (Some b)
  then have "row_userId row \<in> fst ` set m"
    by (metis domI dom_map_of_conv_image_fst)
  with Some show ?thesis
    by (auto simp: groupBest_def set_map_set_keys)
qed

lemma distinct_groupBest:
  "distinct (map fst m) \<Longrightarrow> distinct (map fst (groupBest m row))"
  by (simp add: groupBest_def distinct_map_set split: option.splits)

lemma keys_foldl_groupBest:
  "fst ` set (foldl groupBest m rows) = fst ` set m \<union> row_userId ` set rows"
  by (induction rows arbitrary: m) (auto simp: keys_groupBest)

lemma distinct_foldl_groupBest:
  "distinct (map fst m) \<Longrightarrow> distinct (map fst (foldl groupBest m rows))"
  by (induction rows arbitrary: m) (auto simp: distinct_groupBest)

lemma map_of_foldl_groupBest:
  "map_of (foldl groupBest m rows) k =
     foldl better (map_of m k) (map row_value (filter (\<lambda>r. row_userId r = k) rows))"
  by (induction rows arbitrary: m) (auto simp: map_of_groupBest)

lemma foldl_better_Some: "foldl better (Some x) vs = Some (Max (set (x # vs)))"
proof -
  have "foldl better (Some x) vs = Some (fold max vs x)"
    by (induction vs arbitrary: x) (auto simp: better_def max.commute)
  then show ?thesis
    by (simp only: Max.set_eq_fold)
qed

lemma foldl_better_None:
  "foldl better None vs = (case vs of [] \<Rightarrow> None | v # vs' \<Rightarrow> Some (Max (set vs)))"
  by (cases vs) (simp_all add: foldl_better_Some better_def del: set_simps)

lemma set_js_sort_descending: "set (js_sort (\<lambda>a b. f b - f a) xs) = set xs"
  by (simp add: js_sort_descending)

lemma find_distinct_key:
  "distinct (map f xs) \<Longrightarrow> x \<in> set xs \<Longrightarrow> find (\<lambda>y. f y = f x) xs = Some x"
  by (induction xs) (auto intro: rev_image_eqI)

lemma db_getUser_distinct:
  assumes "distinct (map u_id (tbl_users st))" and "u \<in> set (tbl_users st)"
  shows "db_getUser st (u_id u) = Some u"
  using assms unfolding db_getUser_def by (rule find_distinct_key)

lemma playerName_user:
  assumes "distinct (map u_id (tbl_users st))" and "u \<in> set (tbl_users st)"
  shows "playerName st (u_id u) = username u"
  by (simp add: playerName_def db_getUser_distinct [OF assms])

lemma set_db_typeRacerScores:
  "set (db_typeRacerScores st gid) =
     {\<lparr>row_userId = userId s, row_value = s_value s, row_username = username u\<rparr> | s u.
        s \<in> set (tbl_scores st) \<and> gameId s = gid \<and> u \<in> set (tbl_users st) \<and>
        userId s = u_id u}"
  unfolding db_typeRacerScores_def set_js_sort_descending by (auto simp: eq_commute) blast+

lemma row_values:
  "set (map row_value (filter (\<lambda>r. row_userId r = k) (db_typeRacerScores st gid))) =
     (if k \<in> u_id ` set (tbl_users st) then set (db_typeRacerValues st gid k) else {})"
proof -
  have "set (map row_value (filter (\<lambda>r. row_userId r = k) (db_typeRacerScores st gid))) =
        {row_value r | r. r \<in> set (db_typeRacerScores st gid) \<and> row_userId r = k}"
    by auto
  also have "\<dots> = {s_value s | s u. s \<in> set (tbl_scores st) \<and> gameId s = gid \<and>
                      u \<in> set (tbl_users st) \<and> userId s = u_id u \<and> userId s = k}"
    unfolding set_db_typeRacerScores by force
  also have "\<dots> = (if k \<in> u_id ` set (tbl_users st) then set (db_typeRacerValues st gid k)
                    else {})"
    by (auto simp: db_typeRacerValues_def)
  finally show ?thesis .
qed

lemma row_found:
  assumes "distinct (map u_id (tbl_users st))"
    and "k \<in> row_userId ` set (db_typeRacerScores st gid)"
  shows "\<exists>r. find (\<lambda>s. row_userId s = k) (db_typeRacerScores st gid) = Some r \<and>
             row_username r = playerName st k"
proof -
  from assms(2) obtain r where
    r: "find (\<lambda>s. row_userId s = k) (db_typeRacerScores st gid) = Some r"
    by (cases "find (\<lambda>s. row_userId s = k) (db_typeRacerScores st gid)")
       (auto simp: find_None_iff)
  then have "r \<in> set (db_typeRacerScores st gid)" and k: "row_userId r = k"
    by (auto simp: find_Some_iff)
  then have "\<exists>u\<in>set (tbl_users st). u_id u = k \<and> row_username r = username u"
    unfolding set_db_typeRacerScores by auto
  then obtain u where "u \<in> set (tbl_users st)" "u_id u = k" "row_username r = username u"
    by blast
  with playerName_user [OF assms(1), of u] have "row_username r = playerName st k"
    by simp
  with r show ?thesis by blast
qed

lemma bestEntry_rank:
  "(bestEntry st kv)\<lparr>tr_rank := k\<rparr> =
     \<lparr>tr_rank = k, tr_player = playerName st (fst kv), wpm = js_round (snd kv), accuracy = 95\<rparr>"
  by (simp add: bestEntry_def)

lemma db_typeRacerEntries_found:
  assumes "\<forall>kv\<in>set kvs. \<exists>r. find (\<lambda>s. row_userId s = fst kv) rows = Some r \<and>
                                row_username r = playerName st (fst kv)"
  shows "db_typeRacerEntries rows k kvs = tr_assignRanks k (map (bestEntry st) kvs)"
  using assms
proof (induction kvs arbitrary: k)
  case Nil
  then show ?case by simp
next
  case (Cons kv kvs)
  from Cons.prems obtain r where "find (\<lambda>s. row_userId s = fst kv) rows = Some r"
    "row_username r = playerName st (fst kv)"
    by auto
  moreover have "db_typeRacerEntries rows (k + 1) kvs =
                   tr_assignRanks (k + 1) (map (bestEntry st) kvs)"
    using Cons.prems by (intro Cons.IH) simp
  ultimately show ?case
    by (simp add: bestEntry_rank)
qed

lemma concat_map_if:
  "concat (map (\<lambda>x. if P x then [] else [g x]) xs) = map g (filter (\<lambda>x. \<not> P x) xs)"
  by (induction xs) auto

lemma db_typeRacerPlayers_filter:
  "db_typeRacerPlayers st gid =
     map (\<lambda>u. (u, db_typeRacerValues st gid (u_id u)))
         (filter (\<lambda>u. db_typeRacerValues st gid (u_id u) \<noteq> []) (tbl_users st))"
  unfolding db_typeRacerPlayers_def by (rule concat_map_if)

lemma userBest_iff:
  "(k, v) \<in> set (foldl groupBest [] (db_typeRacerScores st gid)) \<longleftrightarrow>
     k \<in> u_id ` set (tbl_users st) \<and> db_typeRacerValues st gid k \<noteq> [] \<and>
     v = Max (set (db_typeRacerValues st gid k))"
proof -
  let ?rows = "db_typeRacerScores st gid"
  let ?vs = "map row_value (filter (\<lambda>r. row_userId r = k) ?rows)"
  have "distinct (map fst (foldl groupBest [] ?rows))"
    by (rule distinct_foldl_groupBest) simp
  then have "(k, v) \<in> set (foldl groupBest [] ?rows) \<longleftrightarrow>
             map_of (foldl groupBest [] ?rows) k = Some v"
    by simp
  also have "\<dots> \<longleftrightarrow> foldl better None ?vs = Some v"
    by (simp add: map_of_foldl_groupBest)
  also have "\<dots> \<longleftrightarrow> ?vs \<noteq> [] \<and> v = Max (set ?vs)"
    by (cases ?vs) (auto simp: better_def foldl_better_Some)
  also have "\<dots> \<longleftrightarrow> set ?vs \<noteq> {} \<and> v = Max (set ?vs)"
    by (simp only: set_empty)
  also have "\<dots> \<longleftrightarrow> k \<in> u_id ` set (tbl_users st) \<and> db_typeRacerValues st gid k \<noteq> [] \<and>
     v = Max (set (db_typeRacerValues st gid k))"
    unfolding row_values by auto
  finally show ?thesis .
qed

lemma distinct_fst: "distinct (map fst xs) \<Longrightarrow> distinct xs"
  by (simp add: distinct_map)

lemma userBest_mset:
  assumes "distinct (map u_id (tbl_users st))"
  shows "mset (foldl groupBest [] (db_typeRacerScores st gid)) =
           mset (map bestOfUser (db_typeRacerPlayers st gid))"
proof -
  let ?ubs = "foldl groupBest [] (db_typeRacerScores st gid)"
  let ?ps = "map bestOfUser (db_typeRacerPlayers st gid)"
  have "distinct (map fst ?ubs)"
    by (rule distinct_foldl_groupBest) simp
  then have d1: "distinct ?ubs"
    by (rule distinct_fst)
  have "map fst ?ps =
          map u_id (filter (\<lambda>u. db_typeRacerValues st gid (u_id u) \<noteq> []) (tbl_users st))"
    by (simp add: db_typeRacerPlayers_filter bestOfUser_def o_def)
  then have "distinct (map fst ?ps)"
    using assms by (simp add: distinct_map_filter)
  then have d2: "distinct ?ps"
    by (rule distinct_fst)
  have "set ?ubs = set ?ps"
  proof (rule set_eqI)
    fix kv :: "nat \<times> real"
    obtain k v where kv: "kv = (k, v)"
      by (cases kv)
    show "kv \<in> set ?ubs \<longleftrightarrow> kv \<in> set ?ps"
      unfolding kv userBest_iff
      by (auto simp: db_typeRacerPlayers_filter bestOfUser_def)
  qed
  with d1 d2 show ?thesis
    by (simp only: set_eq_iff_mset_eq_distinct)
qed

lemma js_round_mono: "x \<le> y \<Longrightarrow> js_round x \<le> js_round y"
  by (simp add: js_round_def floor_mono)

lemma boardPairs_bestEntry:
  assumes "distinct (map u_id (tbl_users st))"
    and "set ps \<subseteq> set (db_typeRacerPlayers st gid)"
  shows "boardPairs (map (bestEntry st) (map bestOfUser ps)) = map bestWpm ps"
proof -
  have "(playerName st (u_id (fst p)), js_round (Max (set (snd p)))) = bestWpm p"
    if "p \<in> set ps" for p
  proof -
    from that assms(2) have "fst p \<in> set (tbl_users st)"
      by (auto simp: db_typeRacerPlayers_filter)
    then show ?thesis
      by (simp add: bestWpm_def playerName_user [OF assms(1)])
  qed
  then show ?thesis
    by (simp add: boardPairs_def bestEntry_def bestOfUser_def)
qed

lemma db_board:
  assumes "db_getGameIdByType st ''typeracer'' = Inr gid"
    and "distinct (map u_id (tbl_users st))"
  shows "db_getTypeRacerLeaderboard st =
     Inr (if db_typeRacerPlayers st gid = [] then sampleLeaderboard
          else tr_assignRanks 1 (map (bestEntry st)
                 (js_sort (\<lambda>a b. snd b - snd a)
                    (foldl groupBest [] (db_typeRacerScores st gid)))))"
proof -
  let ?rows = "db_typeRacerScores st gid"
  let ?ubs = "foldl groupBest [] ?rows"
  let ?sorted = "js_sort (\<lambda>a b. snd b - snd a) ?ubs"
  have "\<forall>kv\<in>set ?sorted. \<exists>r. find (\<lambda>s. row_userId s = fst kv) ?rows = Some r \<and>
                                row_username r = playerName st (fst kv)"
  proof
    fix kv assume "kv \<in> set ?sorted"
    then have "fst kv \<in> fst ` set ?ubs"
      by (simp add: set_js_sort_descending)
    then have "fst kv \<in> row_userId ` set ?rows"
      by (simp add: keys_foldl_groupBest)
    with assms(2) show "\<exists>r. find (\<lambda>s. row_userId s = fst kv) ?rows = Some r \<and>
                                row_username r = playerName st (fst kv)"
      by (rule row_found)
  qed
  then have e: "db_typeRacerEntries ?rows 1 ?sorted = tr_assignRanks 1 (map (bestEntry st) ?sorted)"
    by (rule db_typeRacerEntries_found)
  have "length ?sorted = length ?ubs"
    by (simp add: js_sort_descending)
  also have "\<dots> = length (map bestOfUser (db_typeRacerPlayers st gid))"
    by (rule mset_eq_length) (rule userBest_mset [OF assms(2)])
  finally have "length ?sorted = length (db_typeRacerPlayers st gid)"
    by simp
  then have "?sorted = [] \<longleftrightarrow> db_typeRacerPlayers st gid = []"
    by (metis length_0_conv)
  then have "tr_assignRanks 1 (map (bestEntry st) ?sorted) = [] \<longleftrightarrow>
                db_typeRacerPlayers st gid = []"
    by (simp add: tr_assignRanks_Nil)
  then show ?thesis
    by (simp add: db_getTypeRacerLeaderboard_def assms(1) Let_def e)
qed

lemma mset_map_cong_list: "mset xs = mset ys \<Longrightarrow> mset (map h xs) = mset (map h ys)"
  by (metis mset_map)

lemma db_leaderboard_best:
  assumes "db_getGameIdByType ds ''typeracer'' = Inr gid"
    and "distinct (map u_id (tbl_users ds))"
  shows "\<exists>board. db_getTypeRacerLeaderboard ds = Inr board \<and>
     (db_typeRacerPlayers ds gid \<noteq> [] \<longrightarrow>
        mset (boardPairs board) = mset (map bestWpm (db_typeRacerPlayers ds gid))) \<and>
     (db_typeRacerPlayers ds gid = [] \<longrightarrow> board = sampleLeaderboard) \<and>
     sorted_wrt (\<lambda>a b. b \<le> a) (map wpm board) \<and>
     map tr_rank board = map (\<lambda>i. 1 + int i) [0..<length board]"
proof (cases "db_typeRacerPlayers ds gid = []")
  case True
  then show ?thesis
    using sampleLeaderboard_sorted by (simp add: db_board [OF assms])
next
  case False
  let ?ubs = "foldl groupBest [] (db_typeRacerScores ds gid)"
  let ?sorted = "js_sort (\<lambda>a b. snd b - snd a) ?ubs"
  let ?board = "tr_assignRanks 1 (map (bestEntry ds) ?sorted)"
  have b: "db_getTypeRacerLeaderboard ds = Inr ?board"
    using False by (simp add: db_board [OF assms])
  have "mset ?sorted = mset ?ubs"
    by (rule mset_js_sort_descending)
  also have "\<dots> = mset (map bestOfUser (db_typeRacerPlayers ds gid))"
    by (rule userBest_mset [OF assms(2)])
  finally have "mset (map (\<lambda>kv. (tr_player (bestEntry ds kv), wpm (bestEntry ds kv))) ?sorted) =
     mset (map (\<lambda>kv. (tr_player (bestEntry ds kv), wpm (bestEntry ds kv)))
            (map bestOfUser (db_typeRacerPlayers ds gid)))"
    by (rule mset_map_cong_list)
  then have "mset (boardPairs (map (bestEntry ds) ?sorted)) =
             mset (boardPairs (map (bestEntry ds) (map bestOfUser (db_typeRacerPlayers ds gid))))"
    by (simp only: boardPairs_def map_map o_def)
  moreover have "boardPairs (map (bestEntry ds) (map bestOfUser (db_typeRacerPlayers ds gid))) =
                   map bestWpm (db_typeRacerPlayers ds gid)"
    by (rule boardPairs_bestEntry [OF assms(2), of _ gid]) (rule subset_refl)
  ultimately have p: "mset (boardPairs ?board) = mset (map bestWpm (db_typeRacerPlayers ds gid))"
    by (simp only: tr_assignRanks_pairs)
  have "sorted_wrt (\<lambda>a b. snd b \<le> snd a) ?sorted"
    by (rule sorted_descending)
  then have "sorted_wrt (\<lambda>a b. js_round (snd b) \<le> js_round (snd a)) ?sorted"
    by (rule sorted_wrt_mono_rel [rotated]) (simp add: js_round_mono)
  then have s: "sorted_wrt (\<lambda>a b. b \<le> a) (map wpm ?board)"
    by (simp add: tr_assignRanks_wpm sorted_wrt_map bestEntry_def o_def)
  have r: "map tr_rank ?board = map (\<lambda>i. 1 + int i) [0..<length ?board]"
    by (simp only: tr_assignRanks_ranks length_tr_assignRanks)
  show ?thesis
    using False p s r by (simp add: b)
qed

lemma memBoard_players:
  "mem_typeRacerPlayers memBoard = [(bob, [72.4]), (alice, [50, 80])]"
  by (simp add: mem_typeRacerPlayers_def mem_typeRacerValues_def mem_scoreHasType_def
      memBoard_def typeracerGame_def redlightGame_def)

lemma dbBoard_players:
  "db_typeRacerPlayers dbBoard 4 = [(alice, [50, 80]), (bob, [72.4])]"
  by (simp add: db_typeRacerPlayers_def db_typeRacerValues_def dbBoard_def alice_def bob_def)

lemma dbBoard_ok:
  "db_getGameIdByType dbBoard ''typeracer'' = Inr 4" "distinct (map u_id (tbl_users dbBoard))"
  by (simp_all add: db_getGameIdByType_def dbBoard_def seededGames_def alice_def bob_def)

lemma memBoard_board:
  "mem_getTypeRacerLeaderboard memBoard =
     [\<lparr>tr_rank = 1, tr_player = ''alice'', wpm = 80, accuracy = 95\<rparr>,
      \<lparr>tr_rank = 2, tr_player = ''bob'', wpm = 72, accuracy = 95\<rparr>]"
  by (simp add: mem_getTypeRacerLeaderboard_def mem_typeRacerEntry_def mem_scoreHasType_def
      memBoard_def typeracerGame_def redlightGame_def higher_def js_round_examples js_sort_def
      alice_def bob_def Let_def)

lemma dbBoard_board:
  "db_getTypeRacerLeaderboard dbBoard =
     Inr [\<lparr>tr_rank = 1, tr_player = ''alice'', wpm = 80, accuracy = 95\<rparr>,
          \<lparr>tr_rank = 2, tr_player = ''bob'', wpm = 72, accuracy = 95\<rparr>]"
  by (simp add: db_getTypeRacerLeaderboard_def dbBoard_ok)
     (simp add: db_typeRacerScores_def dbBoard_def js_sort_def groupBest_def js_round_examples
        alice_def bob_def Let_def)

text \<open>
  Claim C9, as amended. \<open>getTypeRacerLeaderboard\<close> returns exactly one entry for every
  user who has submitted a type racer score: the players and WPM values of the entries
  are, as a multiset, the names of those users with the maximum of the WPM values each
  submitted, rounded to the nearest integer. The entries are in descending order of WPM,
  with ranks 1..N. When no user has such a score the three sample entries are returned.
  For DatabaseStorage this needs a typeracer row in the \<open>games\<close> table (otherwise
  \<open>getGameIdByType\<close> throws) and takes user ids to be unique, as the primary key makes
  them.
\<close>

theorem typeRacerLeaderboard_best_per_user:
  assumes "db_getGameIdByType ds ''typeracer'' = Inr gid"
    and "distinct (map u_id (tbl_users ds))"
  shows "(mem_typeRacerPlayers ms \<noteq> [] \<longrightarrow>
            mset (boardPairs (mem_getTypeRacerLeaderboard ms)) =
              mset (map bestWpm (mem_typeRacerPlayers ms))) \<and>
         (mem_typeRacerPlayers ms = [] \<longrightarrow> mem_getTypeRacerLeaderboard ms = sampleLeaderboard) \<and>
         sorted_wrt (\<lambda>a b. b \<le> a) (map wpm (mem_getTypeRacerLeaderboard ms)) \<and>
         map tr_rank (mem_getTypeRacerLeaderboard ms) =
           map (\<lambda>i. 1 + int i) [0..<length (mem_getTypeRacerLeaderboard ms)] \<and>
         (\<exists>board. db_getTypeRacerLeaderboard ds = Inr board \<and>
            (db_typeRacerPlayers ds gid \<noteq> [] \<longrightarrow>
               mset (boardPairs board) = mset (map bestWpm (db_typeRacerPlayers ds gid))) \<and>
            (db_typeRacerPlayers ds gid = [] \<longrightarrow> board = sampleLeaderboard) \<and>
            sorted_wrt (\<lambda>a b. b \<le> a) (map wpm board) \<and>
            map tr_rank board = map (\<lambda>i. 1 + int i) [0..<length board])"
  using mem_leaderboard_best [of ms] db_leaderboard_best [OF assms] by blast

theorem typeRacerLeaderboard_best_per_user_witness:
  "mem_typeRacerPlayers memBoard = [(bob, [72.4]), (alice, [50, 80])] \<and>
   db_typeRacerPlayers dbBoard 4 = [(alice, [50, 80]), (bob, [72.4])] \<and>
   map bestWpm [(alice, [50, 80]), (bob, [72.4])] = [(''alice'', 80), (''bob'', 72)] \<and>
   mem_getTypeRacerLeaderboard memBoard =
     [\<lparr>tr_rank = 1, tr_player = ''alice'', wpm = 80, accuracy = 95\<rparr>,
      \<lparr>tr_rank = 2, tr_player = ''bob'', wpm = 72, accuracy = 95\<rparr>] \<and>
   db_getTypeRacerLeaderboard dbBoard =
     Inr [\<lparr>tr_rank = 1, tr_player = ''alice'', wpm = 80, accuracy = 95\<rparr>,
          \<lparr>tr_rank = 2, tr_player = ''bob'', wpm = 72, accuracy = 95\<rparr>] \<and>
   mset (boardPairs (mem_getTypeRacerLeaderboard memBoard)) =
     mset (map bestWpm (mem_typeRacerPlayers memBoard))"
proof -
  have b: "map bestWpm [(alice, [50, 80]), (bob, [72.4])] = [(''alice'', 80), (''bob'', 72)]"
    by (simp add: bestWpm_def js_round_examples alice_def bob_def)
  have "mem_typeRacerPlayers memBoard \<noteq> []"
    by (simp add: memBoard_players)
  with typeRacerLeaderboard_best_per_user [OF dbBoard_ok, of memBoard]
  have "mset (boardPairs (mem_getTypeRacerLeaderboard memBoard)) =
          mset (map bestWpm (mem_typeRacerPlayers memBoard))"
    by blast
  with b show ?thesis
    by (simp only: memBoard_players dbBoard_players memBoard_board dbBoard_board)
qed

text \<open>
  Alice's only type racer score is 80.6 WPM (the route accepts every number from 0 up).
  Her entry shows 81 WPM in both storage classes, a value she never submitted.
\<close>

theorem typeRacerLeaderboard_rounds_best:
  "mem_typeRacerPlayers memFraction = [(alice, [80.6])] \<and>
   mem_getTypeRacerLeaderboard memFraction =
     [\<lparr>tr_rank = 1, tr_player = ''alice'', wpm = 81, accuracy = 95\<rparr>] \<and>
   db_typeRacerPlayers dbFraction 4 = [(alice, [80.6])] \<and>
   db_getTypeRacerLeaderboard dbFraction =
     Inr [\<lparr>tr_rank = 1, tr_player = ''alice'', wpm = 81, accuracy = 95\<rparr>] \<and>
   real_of_int 81 \<noteq> 80.6"
  by (simp add: mem_typeRacerPlayers_def mem_typeRacerValues_def mem_scoreHasType_def
      memFraction_def typeracerGame_def mem_getTypeRacerLeaderboard_def mem_typeRacerEntry_def
      higher_def js_round_examples js_sort_def db_typeRacerPlayers_def db_typeRacerValues_def
      dbFraction_def
      db_getTypeRacerLeaderboard_def db_getGameIdByType_def seededGames_def db_typeRacerScores_def
      groupBest_def alice_def Let_def)

end
